theory Spec2Isabelle
  imports Complex_Main
begin

section \<open>Numbers, coercion and rounding\<close>

text \<open>
  The engine computes on JavaScript numbers. They are modelled as reals: arithmetic is
  exact, so rounding error and overflow of IEEE doubles are outside the model. Every
  division of the modelled functions is guarded by the source against a zero
  denominator, and every input passes \<open>safeNumber\<close>, so on finite inputs the source
  produces NaN or Infinity only by overflow; \<open>isFinite\<close> is therefore constantly true
  here, and the guards are kept in the definitions where the source has them.

  A raw field of the untyped model record (\<open>model: any\<close>) is a \<open>real option\<close>:
  \<open>Some x\<close> when \<open>Number(value)\<close> is the finite number \<open>x\<close>, and \<open>None\<close> when
  \<open>Number(value)\<close> is NaN or infinite (the field is absent or not numeric).
\<close>

definition isFinite :: "real \<Rightarrow> bool" where
  "isFinite x = True"

definition safeNumber :: "real option \<Rightarrow> real \<Rightarrow> real" where
  "safeNumber v fallback = (case v of None \<Rightarrow> fallback | Some num \<Rightarrow> num)"

text \<open>\<open>Math.round\<close> rounds to the nearest integer, a half towards plus infinity.\<close>

definition Math_round :: "real \<Rightarrow> real" where
  "Math_round x = of_int \<lfloor>x + 1 / 2\<rfloor>"

text \<open>
  \<open>Math.pow\<close> is called by the valuation with the base \<open>1 + wacc \<ge> 1.01\<close> and a
  possibly fractional exponent; on a positive base it is the real power.
\<close>

definition Math_pow :: "real \<Rightarrow> real \<Rightarrow> real" where
  "Math_pow b e = b powr e"

text \<open>\<open>a || d\<close> on numbers: \<open>d\<close> when \<open>a\<close> is falsy, which for a number is zero (or NaN).\<close>

definition orElse :: "real \<Rightarrow> real \<Rightarrow> real" where
  "orElse a d = (if a = 0 then d else a)"

section \<open>Data model\<close>

record TradingCompEntry =
  companyName :: string
  revenue :: "real option"
  ebitda :: "real option"
  netIncome :: "real option"
  ev :: "real option"
  marketCap :: "real option"


text \<open>
  The breakdown types. The optional \<open>formula\<close> text of a step is display text built with
  \<open>toLocaleString\<close> and \<open>toFixed\<close>; it carries no number of its own and is left out.
\<close>

datatype Operator = Plus | Minus | Equals | Times | Divide

record BreakdownStep =
  label :: string
  "value" :: real
  operator :: "Operator option"

record MetricBreakdown =
  metricKey :: string
  metricLabel :: string
  finalValue :: real
  steps :: "BreakdownStep list"

record YearBreakdowns =
  year :: nat
  grossProfit :: MetricBreakdown
  ebitda :: MetricBreakdown
  ebit :: MetricBreakdown
  netIncome :: MetricBreakdown
  ufcf :: MetricBreakdown

record ValuationBreakdown =
  pvOfFcf :: MetricBreakdown
  terminalValue :: MetricBreakdown
  enterpriseValue :: MetricBreakdown
  equityValue :: MetricBreakdown

record ModelBreakdowns =
  yearlyBreakdowns :: "YearBreakdowns list"
  valuationBreakdown :: ValuationBreakdown

record SensitivityTable =
  title :: string
  rowLabel :: string
  colLabel :: string
  rowValues :: "real list"
  colValues :: "real list"
  data :: "real list list"
  highlightedRow :: nat
  highlightedCol :: nat

record SensitivityAnalysis =
  waccVsGrowth :: SensitivityTable
  entryVsExit :: SensitivityTable
  revenueGrowthVsMargin :: SensitivityTable

text \<open>One entry of the \<open>debtSchedule\<close> array of the LBO analysis.\<close>

record DebtScheduleYear =
  year :: nat
  beginSenior :: real
  seniorInterest :: real
  seniorAmort :: real
  endSenior :: real
  beginMez :: real
  mezInterest :: real
  mezAmort :: real
  endMez :: real
  ebitda :: real
  capex :: real
  wcChange :: real
  fcf :: real
  cashSweep :: real
  distributableFcf :: real
  totalDebtService :: real

text \<open>
  The LBO assumptions after the coercion \<open>Number(x) || default\<close> of the export route:
  plain numbers.
\<close>

record LboParams =
  entryMultiple :: real
  exitMultipleLbo :: real
  holdingPeriod :: nat
  debtPercent :: real
  annualDebtPaydownPct :: real
  seniorDebtMultiple :: real
  mezDebtMultiple :: real
  seniorInterestRate :: real
  mezInterestRate :: real

record FinancialModel =
  startingRevenue :: "real option"
  growthRate :: "real option"
  cogsMargin :: "real option"
  opexMargin :: "real option"
  daMargin :: "real option"
  arDays :: "real option"
  inventoryDays :: "real option"
  apDays :: "real option"
  capexPercent :: "real option"
  maintenanceCapexPercent :: "real option"
  interestRate :: "real option"
  debtBalance :: "real option"
  cashBalance :: "real option"
  sharesOutstanding :: "real option"
  wacc :: "real option"
  terminalGrowthRate :: "real option"
  exitMultiple :: "real option"
  useMidYearConvention :: "bool option"
  tradingComps :: "TradingCompEntry list"
  taxRate :: "real option"

record YearProjection =
  year :: nat
  revenue :: real
  cogs :: real
  grossProfit :: real
  opex :: real
  ebitda :: real
  da :: real
  ebit :: real
  interest :: real
  ebt :: real
  tax :: real
  netIncome :: real
  revenueGrowth :: real
  ebitdaMargin :: real
  netMargin :: real
  accountsReceivable :: real
  inventory :: real
  accountsPayable :: real
  netWorkingCapital :: real
  changeInNwc :: real
  capex :: real
  maintenanceCapex :: real
  growthCapex :: real
  nopat :: real
  ufcf :: real
  fcf :: real
  discountFactor :: real
  pvOfFcf :: real

record ValuationOutput =
  enterpriseValue :: real
  equityValue :: real
  terminalValue :: real
  impliedMultiple :: real
  terminalValueGordon :: real
  terminalValueExitMultiple :: real
  sumPvFcf :: real
  pvOfTerminalValue :: real
  netDebt :: real
  equityValuePerShare :: real
  sharesOutstanding :: real

section \<open>Projection builder\<close>

text \<open>
  One pass of the body of the \<open>for (year = 1; year <= 5; year++)\<close> loop of
  \<open>calculateProjections\<close>: the projection pushed for \<open>yr\<close>, from the loop variables
  \<open>revenue\<close> and \<open>prevNwc\<close>. The constants the source computes before the loop are
  computed here from the model in the same way.
\<close>

definition projectYear :: "FinancialModel \<Rightarrow> nat \<Rightarrow> real \<Rightarrow> real \<Rightarrow> YearProjection" where
  "projectYear model yr curRevenue prevNwc =
    (let growthRate = safeNumber (growthRate model) 0;
         cogsMargin = max 0 (min 100 (safeNumber (cogsMargin model) 0));
         opexMargin = max 0 (min 100 (safeNumber (opexMargin model) 0));
         daMargin = max 0 (min 100 (safeNumber (daMargin model) 5));
         interestRate = max 0 (safeNumber (interestRate model) 5);
         debtBalance = safeNumber (debtBalance model) 0;
         taxRate = max 0 (min 100 (safeNumber (taxRate model) 21));
         arDays = safeNumber (arDays model) 45;
         inventoryDays = safeNumber (inventoryDays model) 60;
         apDays = safeNumber (apDays model) 30;
         capexPercent = safeNumber (capexPercent model) 5;
         maintenanceCapexPercent = safeNumber (maintenanceCapexPercent model) 2;
         cogs = Math_round (curRevenue * (cogsMargin / 100));
         grossProfit = curRevenue - cogs;
         opex = Math_round (curRevenue * (opexMargin / 100));
         ebitda = grossProfit - opex;
         da = Math_round (curRevenue * (daMargin / 100));
         ebit = ebitda - da;
         interest = Math_round (debtBalance * (interestRate / 100));
         ebt = ebit - interest;
         tax = (if ebt > 0 then Math_round (ebt * (taxRate / 100)) else 0);
         netIncome = ebt - tax;
         accountsReceivable = Math_round ((curRevenue / 365) * arDays);
         inventory = Math_round ((cogs / 365) * inventoryDays);
         accountsPayable = Math_round ((cogs / 365) * apDays);
         netWorkingCapital = accountsReceivable + inventory - accountsPayable;
         changeInNwc = (if yr = 1 then netWorkingCapital else netWorkingCapital - prevNwc);
         capex = Math_round (curRevenue * (capexPercent / 100));
         maintenanceCapex = Math_round (curRevenue * (maintenanceCapexPercent / 100));
         growthCapex = capex - maintenanceCapex;
         nopat = Math_round (ebit * (1 - taxRate / 100));
         ufcf = nopat + da - changeInNwc - capex;
         safeRevenue = (if curRevenue > 0 then curRevenue else 1)
     in \<lparr> year = yr, revenue = curRevenue, cogs = cogs, grossProfit = grossProfit, opex = opex,
          ebitda = ebitda, da = da, ebit = ebit, interest = interest, ebt = ebt, tax = tax,
          netIncome = netIncome,
          revenueGrowth = (if yr = 1 then 0 else growthRate),
          ebitdaMargin = (ebitda / safeRevenue) * 100,
          netMargin = (netIncome / safeRevenue) * 100,
          accountsReceivable = accountsReceivable, inventory = inventory,
          accountsPayable = accountsPayable, netWorkingCapital = netWorkingCapital,
          changeInNwc = changeInNwc,
          capex = capex, maintenanceCapex = maintenanceCapex, growthCapex = growthCapex,
          nopat = nopat, ufcf = ufcf,
          fcf = ufcf, discountFactor = 0, pvOfFcf = 0 \<rparr>)"

text \<open>
  The end of the loop body: \<open>revenue = Math.round(revenue * (1 + growthRate / 100));
  if (revenue <= 0) revenue = 1\<close>.
\<close>

definition nextRevenue :: "FinancialModel \<Rightarrow> real \<Rightarrow> real" where
  "nextRevenue model curRevenue =
    (let growthRate = safeNumber (growthRate model) 0;
         revenue = Math_round (curRevenue * (1 + growthRate / 100))
     in if revenue \<le> 0 then 1 else revenue)"

text \<open>
  The loop itself, by recursion on the number of years left (\<open>5 - year + 1\<close>); the
  projections are returned in the order they are pushed.
\<close>

fun projectionLoop :: "FinancialModel \<Rightarrow> nat \<Rightarrow> nat \<Rightarrow> real \<Rightarrow> real \<Rightarrow> YearProjection list" where
  "projectionLoop model 0 yr curRevenue prevNwc = []"
| "projectionLoop model (Suc left) yr curRevenue prevNwc =
    (let p = projectYear model yr curRevenue prevNwc
     in p # projectionLoop model left (yr + 1) (nextRevenue model curRevenue) (netWorkingCapital p))"

definition calculateProjections :: "FinancialModel \<Rightarrow> YearProjection list" where
  "calculateProjections model =
    (let startingRevenue = safeNumber (startingRevenue model) 1000000;
         revenue = (if startingRevenue > 0 then startingRevenue else 1)
     in projectionLoop model 5 1 revenue 0)"

section \<open>Valuation calculator\<close>

text \<open>The discount period of the projection at index \<open>idx\<close> of the \<open>forEach\<close>.\<close>

definition discountPeriod :: "bool \<Rightarrow> nat \<Rightarrow> real" where
  "discountPeriod useMidYear idx = (if useMidYear then real idx + 0.5 else real idx + 1)"

text \<open>
  The body of \<open>projections.forEach((p, idx) => ...)\<close>: the projection object is
  written in place, so the model returns the updated projection.
\<close>

definition discountProjection :: "real \<Rightarrow> bool \<Rightarrow> nat \<Rightarrow> YearProjection \<Rightarrow> YearProjection" where
  "discountProjection waccRate useMidYear idx p =
    (let discountBase = 1 + waccRate;
         discountFactor = (if discountBase > 0
                           then 1 / Math_pow discountBase (discountPeriod useMidYear idx) else 0);
         p1 = p\<lparr> discountFactor := (if isFinite discountFactor then discountFactor else 0) \<rparr>;
         p2 = p1\<lparr> fcf := ufcf p1 \<rparr>
     in p2\<lparr> pvOfFcf := fcf p2 * YearProjection.discountFactor p2 \<rparr>)"

text \<open>
  The \<open>forEach\<close> from index \<open>idx\<close> on, with the running \<open>sumPvOfFcf\<close>: it returns the
  array as the call leaves it, and the sum.
\<close>

fun discountLoop :: "real \<Rightarrow> bool \<Rightarrow> nat \<Rightarrow> real \<Rightarrow> YearProjection list
    \<Rightarrow> YearProjection list \<times> real" where
  "discountLoop waccRate useMidYear idx s [] = ([], s)"
| "discountLoop waccRate useMidYear idx s (p # ps) =
    (let p' = discountProjection waccRate useMidYear idx p;
         s' = s + (if isFinite (pvOfFcf p') then pvOfFcf p' else 0);
         (ps', total) = discountLoop waccRate useMidYear (idx + 1) s' ps
     in (p' # ps', total))"

definition tvDiscountPeriod :: "bool \<Rightarrow> nat \<Rightarrow> real" where
  "tvDiscountPeriod useMidYear n = (if useMidYear then real n else real n)"

text \<open>
  \<open>calculateValuation\<close> returns its output; the second component is the \<open>projections\<close>
  array after the call, which the caller still holds.
\<close>

definition calculateValuation :: "FinancialModel \<Rightarrow> YearProjection list
    \<Rightarrow> ValuationOutput \<times> YearProjection list" where
  "calculateValuation model projections =
    (let wacc = max 0.01 (safeNumber (wacc model) 10 / 100);
         terminalGrowth = safeNumber (terminalGrowthRate model) 2 / 100;
         exitMultiple = safeNumber (exitMultiple model) 12;
         debt = safeNumber (debtBalance model) 0;
         cash = safeNumber (cashBalance model) 0;
         sharesOutstanding = safeNumber (FinancialModel.sharesOutstanding model) 1000000;
         useMidYear = (useMidYearConvention model \<noteq> Some False)
     in if length projections = 0 then
          (\<lparr> enterpriseValue = 0, equityValue = 0, terminalValue = 0, impliedMultiple = 0,
             terminalValueGordon = 0, terminalValueExitMultiple = 0, sumPvFcf = 0,
             pvOfTerminalValue = 0, netDebt = 0, equityValuePerShare = 0,
             sharesOutstanding = 0 \<rparr>, projections)
        else
          (let (projections', sumPvOfFcf) = discountLoop wacc useMidYear 0 0 projections;
               lastProjection = last projections';
               lastUfcf = ufcf lastProjection;
               lastEbitda = orElse (ebitda lastProjection) 1;
               waccMinusGrowth = wacc - terminalGrowth;
               terminalValueGordon = (if waccMinusGrowth > 0.001
                                      then (lastUfcf * (1 + terminalGrowth)) / waccMinusGrowth
                                      else 0);
               terminalValueExitMultiple = lastEbitda * exitMultiple;
               terminalValue = terminalValueGordon;
               tvDiscountPeriod = tvDiscountPeriod useMidYear (length projections');
               pvOfTerminalValue = (if wacc > 0
                                    then terminalValue / Math_pow (1 + wacc) tvDiscountPeriod
                                    else 0);
               enterpriseValue = (if isFinite (sumPvOfFcf + pvOfTerminalValue)
                                  then sumPvOfFcf + pvOfTerminalValue else 0);
               netDebt = debt - cash;
               equityValue = enterpriseValue - netDebt;
               equityValuePerShare = (if sharesOutstanding > 0
                                      then equityValue / sharesOutstanding else 0);
               impliedMultiple = (if lastEbitda \<noteq> 0 then enterpriseValue / lastEbitda else 0)
           in (\<lparr> enterpriseValue = (if isFinite enterpriseValue then enterpriseValue else 0),
                 equityValue = (if isFinite equityValue then equityValue else 0),
                 terminalValue = (if isFinite terminalValue then terminalValue else 0),
                 impliedMultiple = (if isFinite impliedMultiple then impliedMultiple else 0),
                 terminalValueGordon =
                   (if isFinite terminalValueGordon then terminalValueGordon else 0),
                 terminalValueExitMultiple =
                   (if isFinite terminalValueExitMultiple then terminalValueExitMultiple else 0),
                 sumPvFcf = (if isFinite sumPvOfFcf then sumPvOfFcf else 0),
                 pvOfTerminalValue = (if isFinite pvOfTerminalValue then pvOfTerminalValue else 0),
                 netDebt = (if isFinite netDebt then netDebt else 0),
                 equityValuePerShare =
                   (if isFinite equityValuePerShare then equityValuePerShare else 0),
                 sharesOutstanding = sharesOutstanding \<rparr>, projections')))"

section \<open>Trading comps calculator\<close>





section \<open>Breakdown formatter\<close>

text \<open>The decimal digits of a number, for the label \<open>Year ${p.year} FCF PV\<close>.\<close>

function showNat :: "nat \<Rightarrow> string" where
  "showNat n = (if n < 10 then [char_of (48 + n)]
                else showNat (n div 10) @ [char_of (48 + n mod 10)])"
  by pat_completeness auto
termination
  by (relation "measure id") auto

definition yearBreakdown :: "FinancialModel \<Rightarrow> YearProjection \<Rightarrow> YearBreakdowns" where
  "yearBreakdown model p =
    (let revenue = YearProjection.revenue p;
         cogs = cogs p;
         grossProfit = YearProjection.grossProfit p;
         opex = opex p;
         ebitda = YearProjection.ebitda p;
         da = da p;
         ebit = YearProjection.ebit p;
         interest = interest p;
         ebt = ebt p;
         tax = tax p;
         netIncome = YearProjection.netIncome p
     in \<lparr> YearBreakdowns.year = YearProjection.year p,
          YearBreakdowns.grossProfit = \<lparr> metricKey = ''grossProfit'', metricLabel = ''Gross Profit'',
            finalValue = grossProfit,
            steps = [
              \<lparr> label = ''Revenue'', value = revenue, operator = Some Equals \<rparr>,
              \<lparr> label = ''Cost of Goods Sold (COGS)'', value = cogs, operator = Some Minus \<rparr>,
              \<lparr> label = ''Gross Profit'', value = grossProfit, operator = Some Equals \<rparr>] \<rparr>,
          YearBreakdowns.ebitda = \<lparr> metricKey = ''ebitda'', metricLabel = ''EBITDA'',
            finalValue = ebitda,
            steps = [
              \<lparr> label = ''Gross Profit'', value = grossProfit, operator = Some Equals \<rparr>,
              \<lparr> label = ''Operating Expenses (OpEx)'', value = opex, operator = Some Minus \<rparr>,
              \<lparr> label = ''EBITDA'', value = ebitda, operator = Some Equals \<rparr>] \<rparr>,
          YearBreakdowns.ebit = \<lparr> metricKey = ''ebit'', metricLabel = ''EBIT'',
            finalValue = ebit,
            steps = [
              \<lparr> label = ''EBITDA'', value = ebitda, operator = Some Equals \<rparr>,
              \<lparr> label = ''Depreciation & Amortization'', value = da, operator = Some Minus \<rparr>,
              \<lparr> label = ''EBIT'', value = ebit, operator = Some Equals \<rparr>] \<rparr>,
          YearBreakdowns.netIncome = \<lparr> metricKey = ''netIncome'', metricLabel = ''Net Income'',
            finalValue = netIncome,
            steps = [
              \<lparr> label = ''EBIT'', value = ebit, operator = Some Equals \<rparr>,
              \<lparr> label = ''Interest Expense'', value = interest, operator = Some Minus \<rparr>,
              \<lparr> label = ''EBT (Earnings Before Tax)'', value = ebt, operator = Some Equals \<rparr>,
              \<lparr> label = ''Taxes'', value = tax, operator = Some Minus \<rparr>,
              \<lparr> label = ''Net Income'', value = netIncome, operator = Some Equals \<rparr>] \<rparr>,
          YearBreakdowns.ufcf = \<lparr> metricKey = ''ufcf'', metricLabel = ''Unlevered Free Cash Flow (UFCF)'',
            finalValue = YearProjection.ufcf p,
            steps = [
              \<lparr> label = ''EBIT'', value = ebit, operator = Some Equals \<rparr>,
              \<lparr> label = ''Taxes on EBIT'',
                value = Math_round (if ebit > 0
                                    then ebit * safeNumber (taxRate model) 21 / 100 else 0),
                operator = Some Minus \<rparr>,
              \<lparr> label = ''NOPAT (EBIAT)'', value = nopat p, operator = Some Equals \<rparr>,
              \<lparr> label = ''Depreciation & Amortization'', value = da, operator = Some Plus \<rparr>,
              \<lparr> label = ''Change in Net Working Capital'', value = changeInNwc p,
                operator = Some Minus \<rparr>,
              \<lparr> label = ''Capital Expenditures'', value = YearProjection.capex p,
                operator = Some Minus \<rparr>,
              \<lparr> label = ''Unlevered Free Cash Flow'', value = YearProjection.ufcf p,
                operator = Some Equals \<rparr>] \<rparr> \<rparr>)"

definition calculateBreakdowns :: "FinancialModel \<Rightarrow> YearProjection list \<Rightarrow> ValuationOutput
    \<Rightarrow> ModelBreakdowns" where
  "calculateBreakdowns model projections valuation =
    (let yearlyBreakdowns = map (yearBreakdown model) projections;
         sumPvOfFcf = foldl (\<lambda>sum p. sum + (if isFinite (YearProjection.pvOfFcf p)
                                               then YearProjection.pvOfFcf p else 0))
                        0 projections;
         wacc = max 0.01 (safeNumber (wacc model) 10 / 100);
         terminalGrowth = safeNumber (terminalGrowthRate model) 2 / 100;
         lastFcf = (if length projections > 0 then YearProjection.fcf (last projections) else 0);
         debt = safeNumber (debtBalance model) 0;
         pvOfTv = (if wacc > 0
                   then ValuationOutput.terminalValue valuation
                          / Math_pow (1 + wacc) (real (length projections))
                   else 0)
     in \<lparr> yearlyBreakdowns = yearlyBreakdowns,
          valuationBreakdown =
            \<lparr> ValuationBreakdown.pvOfFcf = \<lparr> metricKey = ''pvOfFcf'', metricLabel = ''Present Value of FCF'',
                finalValue = sumPvOfFcf,
                steps = map (\<lambda>p. \<lparr> label = ''Year '' @ showNat (YearProjection.year p) @ '' FCF PV'',
                                     value = YearProjection.pvOfFcf p,
                                     operator = None \<rparr>) projections \<rparr>,
              ValuationBreakdown.terminalValue = \<lparr> metricKey = ''terminalValue'', metricLabel = ''Terminal Value'',
                finalValue = ValuationOutput.terminalValue valuation,
                steps = [
                  \<lparr> label = ''Year 5 FCF'', value = lastFcf, operator = Some Equals \<rparr>,
                  \<lparr> label = ''Terminal Growth Rate'', value = terminalGrowth * 100,
                    operator = None \<rparr>,
                  \<lparr> label = ''WACC'', value = wacc * 100, operator = None \<rparr>,
                  \<lparr> label = ''Terminal Value'', value = ValuationOutput.terminalValue valuation,
                    operator = Some Equals \<rparr>] \<rparr>,
              ValuationBreakdown.enterpriseValue = \<lparr> metricKey = ''enterpriseValue'',
                metricLabel = ''Enterprise Value'',
                finalValue = ValuationOutput.enterpriseValue valuation,
                steps = [
                  \<lparr> label = ''Sum of PV of FCF'', value = sumPvOfFcf, operator = Some Equals \<rparr>,
                  \<lparr> label = ''PV of Terminal Value'', value = pvOfTv, operator = Some Plus \<rparr>,
                  \<lparr> label = ''Enterprise Value'',
                    value = ValuationOutput.enterpriseValue valuation,
                    operator = Some Equals \<rparr>] \<rparr>,
              ValuationBreakdown.equityValue = \<lparr> metricKey = ''equityValue'', metricLabel = ''Equity Value'',
                finalValue = ValuationOutput.equityValue valuation,
                steps = [
                  \<lparr> label = ''Enterprise Value'',
                    value = ValuationOutput.enterpriseValue valuation,
                    operator = Some Equals \<rparr>,
                  \<lparr> label = ''Less: Net Debt'', value = debt, operator = Some Minus \<rparr>,
                  \<lparr> label = ''Equity Value'', value = ValuationOutput.equityValue valuation,
                    operator = Some Equals \<rparr>] \<rparr> \<rparr> \<rparr>)"

section \<open>Sensitivity engine\<close>

text \<open>
  \<open>{ ...model, wacc: String(wacc), terminalGrowthRate: String(growth) }\<close>: the number
  is written to the copy as a string and read back by \<open>safeNumber\<close>, which gives the
  same finite number.
\<close>

definition waccVsGrowthCell :: "FinancialModel \<Rightarrow> real \<Rightarrow> real \<Rightarrow> real" where
  "waccVsGrowthCell model waccV growth =
    (let tempModel = model\<lparr> wacc := Some waccV, terminalGrowthRate := Some growth \<rparr>;
         tempProjections = calculateProjections tempModel;
         tempValuation = fst (calculateValuation tempModel tempProjections)
     in Math_round (ValuationOutput.enterpriseValue tempValuation))"

text \<open>
  A cell of the entry/exit grid; \<open>Math.pow(x, 5)\<close> has the integer exponent 5 and is
  the fifth power for every base.
\<close>

definition entryVsExitCell :: "FinancialModel \<Rightarrow> real \<Rightarrow> real \<Rightarrow> real \<Rightarrow> real" where
  "entryVsExitCell model lastEbitda entry exit =
    (let entryEv = lastEbitda * entry;
         exitEv = lastEbitda * exit * (1 + safeNumber (growthRate model) 15 / 100) ^ 5;
         moic = (if entryEv > 0 then exitEv / entryEv else 0)
     in Math_round (moic * 100) / 100)"

definition growthVsMarginCell :: "FinancialModel \<Rightarrow> real \<Rightarrow> real \<Rightarrow> real" where
  "growthVsMarginCell model revGrowth margin =
    (let tempModel = model\<lparr> growthRate := Some revGrowth,
                              opexMargin := Some (100 - margin - safeNumber (cogsMargin model) 40) \<rparr>;
         tempProjections = calculateProjections tempModel;
         tempValuation = fst (calculateValuation tempModel tempProjections)
     in Math_round (ValuationOutput.enterpriseValue tempValuation))"

definition calculateSensitivity :: "FinancialModel \<Rightarrow> YearProjection list \<Rightarrow> SensitivityAnalysis" where
  "calculateSensitivity model projections =
    (let baseWacc = safeNumber (wacc model) 10;
         baseGrowth = safeNumber (terminalGrowthRate model) 2;
         baseEntryMultiple = safeNumber (exitMultiple model) 8;
         baseExitMultiple = safeNumber (exitMultiple model) 12;
         waccValues = [baseWacc - 2, baseWacc - 1, baseWacc, baseWacc + 1, baseWacc + 2];
         growthValues = [baseGrowth - 1, baseGrowth - 0.5, baseGrowth, baseGrowth + 0.5,
                         baseGrowth + 1];
         waccVsGrowthData =
           map (\<lambda>waccV. map (\<lambda>growth. waccVsGrowthCell model waccV growth) growthValues)
             waccValues;
         entryValues = [6, 7, 8, 9, 10];
         exitValues = [10, 11, 12, 13, 14];
         lastEbitda = (if length projections > 0
                       then YearProjection.ebitda (last projections) else 0);
         entryVsExitData =
           map (\<lambda>entry. map (\<lambda>exit. entryVsExitCell model lastEbitda entry exit) exitValues)
             entryValues;
         revenueGrowthValues = [10, 12.5, 15, 17.5, 20];
         marginValues = [25, 27.5, 30, 32.5, 35];
         growthVsMarginData =
           map (\<lambda>revGrowth. map (\<lambda>margin. growthVsMarginCell model revGrowth margin)
                                marginValues)
             revenueGrowthValues
     in \<lparr> waccVsGrowth =
            \<lparr> title = ''Enterprise Value Sensitivity: WACC vs Terminal Growth'',
              rowLabel = ''WACC (%)'', colLabel = ''Terminal Growth (%)'',
              rowValues = waccValues, colValues = growthValues, data = waccVsGrowthData,
              highlightedRow = 2, highlightedCol = 2 \<rparr>,
          entryVsExit =
            \<lparr> title = ''MOIC Sensitivity: Entry Multiple vs Exit Multiple'',
              rowLabel = ''Entry Multiple (x)'', colLabel = ''Exit Multiple (x)'',
              rowValues = entryValues, colValues = exitValues, data = entryVsExitData,
              highlightedRow = 2, highlightedCol = 2 \<rparr>,
          revenueGrowthVsMargin =
            \<lparr> title = ''Enterprise Value: Revenue Growth vs EBITDA Margin'',
              rowLabel = ''Revenue Growth (%)'', colLabel = ''EBITDA Margin (%)'',
              rowValues = revenueGrowthValues, colValues = marginValues,
              data = growthVsMarginData,
              highlightedRow = 2, highlightedCol = 2 \<rparr> \<rparr>)"

section \<open>LBO returns model\<close>

text \<open>The entry calculations of the LBO sheet, from the first projection's EBITDA.\<close>

definition entryEbitda :: "YearProjection list \<Rightarrow> real" where
  "entryEbitda projections =
    (case projections of [] \<Rightarrow> 0 | p # _ \<Rightarrow> orElse (YearProjection.ebitda p) 0)"

definition seniorDebt :: "LboParams \<Rightarrow> YearProjection list \<Rightarrow> real" where
  "seniorDebt lbo projections =
    (let entryEbitda = entryEbitda projections;
         entryEv = entryEbitda * entryMultiple lbo;
         totalDebt = entryEv * (debtPercent lbo / 100)
     in min (entryEbitda * seniorDebtMultiple lbo) totalDebt)"

definition mezDebt :: "LboParams \<Rightarrow> YearProjection list \<Rightarrow> real" where
  "mezDebt lbo projections =
    (let entryEbitda = entryEbitda projections;
         entryEv = entryEbitda * entryMultiple lbo;
         totalDebt = entryEv * (debtPercent lbo / 100)
     in min (entryEbitda * mezDebtMultiple lbo) (totalDebt - seniorDebt lbo projections))"

text \<open>
  The body of the debt-schedule loop for the year at index \<open>yr\<close>: the entry pushed to
  \<open>debtSchedule\<close>, from the projection of the year and the balances \<open>seniorBalance\<close>
  and \<open>mezBalance\<close> at its beginning. \<open>seniorDebt0\<close> is the senior debt at entry.
\<close>

definition debtScheduleYear :: "LboParams \<Rightarrow> real \<Rightarrow> nat \<Rightarrow> YearProjection \<Rightarrow> real \<Rightarrow> real
    \<Rightarrow> DebtScheduleYear" where
  "debtScheduleYear lbo seniorDebt0 yr proj seniorBalance mezBalance =
    (let beginSenior = seniorBalance;
         beginMez = mezBalance;
         seniorInt = beginSenior * (seniorInterestRate lbo / 100);
         mezInt = beginMez * (mezInterestRate lbo / 100);
         mandatoryAmort = seniorDebt0 * (annualDebtPaydownPct lbo / 100);
         seniorAmort = min mandatoryAmort beginSenior;
         ebitda = YearProjection.ebitda proj;
         capex = orElse (YearProjection.capex proj) (ebitda * 0.08);
         wcChange = orElse (changeInNwc proj) 0;
         taxRate = 0.25;
         taxes = max 0 ((ebitda - seniorInt - mezInt) * taxRate);
         fcf = ebitda - seniorInt - mezInt - taxes - capex - wcChange - seniorAmort;
         cashSweep = max 0 (min (fcf * 0.5) (beginSenior - seniorAmort));
         distributableFcf = fcf - cashSweep;
         seniorBalance' = max 0 (beginSenior - seniorAmort - cashSweep);
         mezBalance' = beginMez
     in \<lparr> DebtScheduleYear.year = yr + 1,
          beginSenior = beginSenior,
          seniorInterest = seniorInt,
          seniorAmort = seniorAmort,
          endSenior = seniorBalance',
          beginMez = beginMez,
          mezInterest = mezInt,
          mezAmort = 0,
          endMez = mezBalance',
          DebtScheduleYear.ebitda = ebitda,
          DebtScheduleYear.capex = capex,
          wcChange = wcChange,
          DebtScheduleYear.fcf = fcf,
          cashSweep = cashSweep,
          distributableFcf = distributableFcf,
          totalDebtService = seniorInt + mezInt + seniorAmort \<rparr>)"

text \<open>
  \<open>for (let yr = 0; yr < holdingPeriod && yr < projections.length; yr++)\<close>, from \<open>yr\<close>
  on with the balances carried between the years.
\<close>

function debtScheduleLoop :: "LboParams \<Rightarrow> real \<Rightarrow> YearProjection list \<Rightarrow> nat \<Rightarrow> real \<Rightarrow> real
    \<Rightarrow> DebtScheduleYear list" where
  "debtScheduleLoop lbo seniorDebt0 projections yr seniorBalance mezBalance =
    (if yr < holdingPeriod lbo \<and> yr < length projections then
       (let d = debtScheduleYear lbo seniorDebt0 yr (projections ! yr) seniorBalance mezBalance
        in d # debtScheduleLoop lbo seniorDebt0 projections (yr + 1) (endSenior d) (endMez d))
     else [])"
  by pat_completeness auto
termination
  by (relation "measure (\<lambda>(lbo, seniorDebt0, projections, yr, seniorBalance, mezBalance).
                  length projections - yr)") auto

declare debtScheduleLoop.simps [simp del]

definition debtSchedule :: "LboParams \<Rightarrow> YearProjection list \<Rightarrow> DebtScheduleYear list" where
  "debtSchedule lbo projections =
    debtScheduleLoop lbo (seniorDebt lbo projections) projections 0
      (seniorDebt lbo projections) (mezDebt lbo projections)"

text \<open>
  The loop of the exit sensitivity table for one entry multiple repeats the debt
  schedule from the scenario's senior debt. \<open>scenarioYear\<close> is its body: the
  distributable cash flow of the year, pushed to \<open>scenarioFcfs\<close>, and the senior
  balance the year leaves in \<open>sensSeniorBalance\<close>.
\<close>

definition scenarioYear :: "LboParams \<Rightarrow> real \<Rightarrow> YearProjection \<Rightarrow> real \<Rightarrow> real \<Rightarrow> real \<times> real" where
  "scenarioYear lbo sensSeniorDebt proj sensSeniorBalance sensMezBalance =
    (let beginSenior = sensSeniorBalance;
         beginMez = sensMezBalance;
         seniorInt = beginSenior * (seniorInterestRate lbo / 100);
         mezInt = beginMez * (mezInterestRate lbo / 100);
         mandatoryAmort = sensSeniorDebt * (annualDebtPaydownPct lbo / 100);
         seniorAmort = min mandatoryAmort beginSenior;
         ebitdaVal = YearProjection.ebitda proj;
         capexVal = orElse (YearProjection.capex proj) (ebitdaVal * 0.08);
         wcChangeVal = orElse (changeInNwc proj) 0;
         taxRateVal = 0.25;
         taxesVal = max 0 ((ebitdaVal - seniorInt - mezInt) * taxRateVal);
         fcfVal = ebitdaVal - seniorInt - mezInt - taxesVal - capexVal - wcChangeVal
                    - seniorAmort;
         cashSweepVal = max 0 (min (fcfVal * 0.5) (beginSenior - seniorAmort));
         distributableFcfVal = fcfVal - cashSweepVal
     in (distributableFcfVal, max 0 (beginSenior - seniorAmort - cashSweepVal)))"

function scenarioLoop :: "LboParams \<Rightarrow> real \<Rightarrow> YearProjection list \<Rightarrow> nat \<Rightarrow> real \<Rightarrow> real
    \<Rightarrow> real list \<Rightarrow> real list \<times> real" where
  "scenarioLoop lbo sensSeniorDebt projections yr sensSeniorBalance sensMezBalance scenarioFcfs =
    (if yr < holdingPeriod lbo \<and> yr < length projections then
       (let y = scenarioYear lbo sensSeniorDebt (projections ! yr) sensSeniorBalance
                  sensMezBalance
        in scenarioLoop lbo sensSeniorDebt projections (yr + 1) (snd y) sensMezBalance
             (scenarioFcfs @ [fst y]))
     else (scenarioFcfs, sensSeniorBalance))"
  by pat_completeness auto
termination
  by (relation "measure (\<lambda>(lbo, sensSeniorDebt, projections, yr, rest). length projections - yr)")
    auto

declare scenarioLoop.simps [simp del]

subsection \<open>The Newton-Raphson IRR solver\<close>

text \<open>
  The inner loop over \<open>t\<close> from \<open>t\<close> on, over the flows still to visit, with the
  running \<open>npv\<close> and \<open>dnpv\<close>. The rate stays in \<open>[-0.99, 10]\<close>, so the base
  \<open>1 + rate\<close> of \<open>Math.pow\<close> is positive.
\<close>

fun npvLoop :: "real \<Rightarrow> nat \<Rightarrow> real list \<Rightarrow> real \<Rightarrow> real \<Rightarrow> real \<times> real" where
  "npvLoop rate t [] npv dnpv = (npv, dnpv)"
| "npvLoop rate t (flow # flows) npv dnpv =
    npvLoop rate (t + 1) flows
      (npv + flow / Math_pow (1 + rate) (real t))
      (dnpv - real t * flow / Math_pow (1 + rate) (real t + 1))"

text \<open>
  The outer loop \<open>for (iter = 0; iter < 100; iter++)\<close> with \<open>left\<close> iterations to go;
  a \<open>break\<close> returns the current rate.
\<close>

fun irrLoop :: "real list \<Rightarrow> nat \<Rightarrow> real \<Rightarrow> real" where
  "irrLoop flows 0 rate = rate"
| "irrLoop flows (Suc left) rate =
    (let (npv, dnpv) = npvLoop rate 0 flows 0 0
     in if \<bar>npv\<bar> < 0.0001 then rate
        else if \<bar>dnpv\<bar> < 0.0001 then rate
        else (let rate1 = rate - npv / dnpv;
                  rate2 = (if rate1 < - 0.99 then - 0.99 else rate1);
                  rate3 = (if rate2 > 10 then 10 else rate2)
              in irrLoop flows left rate3))"

definition calculateIRR :: "real list \<Rightarrow> real" where
  "calculateIRR flows = irrLoop flows 100 0.15 * 100"

section \<open>Terms of the statements\<close>

text \<open>
  The three constants \<open>wacc\<close>, \<open>terminalGrowth\<close> and \<open>useMidYear\<close> that
  \<open>calculateValuation\<close> computes from the model in its first lines, named so that the
  statements below can speak of them.
\<close>

definition modelWacc :: "FinancialModel \<Rightarrow> real" where
  "modelWacc model = max 0.01 (safeNumber (wacc model) 10 / 100)"

definition modelTerminalGrowth :: "FinancialModel \<Rightarrow> real" where
  "modelTerminalGrowth model = safeNumber (terminalGrowthRate model) 2 / 100"

definition modelUseMidYear :: "FinancialModel \<Rightarrow> bool" where
  "modelUseMidYear model = (useMidYearConvention model \<noteq> Some False)"

text \<open>
  What a request computes: the projections of a model, and the valuation of these
  projections (the output, and the projections as the valuation leaves them).
\<close>

definition valuationOf :: "FinancialModel \<Rightarrow> ValuationOutput" where
  "valuationOf model = fst (calculateValuation model (calculateProjections model))"

definition projectionsAfterValuation :: "FinancialModel \<Rightarrow> YearProjection list" where
  "projectionsAfterValuation model = snd (calculateValuation model (calculateProjections model))"

text \<open>
  What the breakdown and the sensitivity requests compute: the breakdown is made from
  the projections as the valuation leaves them and from its output, the sensitivity
  from the model and its projections.
\<close>

definition breakdownsOf :: "FinancialModel \<Rightarrow> ModelBreakdowns" where
  "breakdownsOf model =
    calculateBreakdowns model (projectionsAfterValuation model) (valuationOf model)"

definition sensitivityOf :: "FinancialModel \<Rightarrow> SensitivityAnalysis" where
  "sensitivityOf model = calculateSensitivity model (calculateProjections model)"

text \<open>
  Five values are centred on \<open>c\<close> when the middle one is \<open>c\<close> and the others lie
  symmetrically around it.
\<close>

definition centredOn :: "real list \<Rightarrow> real \<Rightarrow> bool" where
  "centredOn vs c =
    (length vs = 5 \<and> vs ! 2 = c \<and> vs ! 0 + vs ! 4 = 2 * c \<and> vs ! 1 + vs ! 3 = 2 * c)"

text \<open>
  The cash flows of one investment of 100 and one payoff after five years, with the
  internal rate of return \<open>r\<close>.
\<close>

definition singlePayoff :: "real \<Rightarrow> real list" where
  "singlePayoff r = [- 100, 0, 0, 0, 0, 100 * (1 + r) ^ 5]"

text \<open>
  A device of the convergence proof of the IRR solver: \<open>k\<close> more iterations, from any
  rate in the clamp range that is not above the root \<open>r\<close> and whose ratio
  \<open>(1 + rate) / (1 + r)\<close> is at least \<open>L\<close>, return a rate within \<open>1e-4\<close> of \<open>r\<close>.
\<close>

definition convergesFrom :: "real \<Rightarrow> nat \<Rightarrow> real \<Rightarrow> bool" where
  "convergesFrom r k L \<longleftrightarrow>
    (\<forall>rate. L * (1 + r) \<le> 1 + rate \<and> rate \<le> r \<and> - 0.99 \<le> rate \<longrightarrow>
       \<bar>irrLoop (singlePayoff r) k rate - r\<bar> < 1 / 10000)"

subsection \<open>Concrete inputs\<close>

text \<open>
  The scenario of the specification: revenue 1,000,000 growing 15 percent, COGS 40
  percent, operating expenses 30 percent, D&A 5 percent, tax 21 percent, WACC 10 percent,
  terminal growth 2 percent, no debt; every other field is absent and takes its
  default.
\<close>

definition specScenario :: FinancialModel where
  "specScenario =
    \<lparr> startingRevenue = Some 1000000, growthRate = Some 15, cogsMargin = Some 40,
      opexMargin = Some 30, daMargin = Some 5, arDays = None, inventoryDays = None,
      apDays = None, capexPercent = None, maintenanceCapexPercent = None,
      interestRate = None, debtBalance = Some 0, cashBalance = None,
      sharesOutstanding = None, wacc = Some 10, terminalGrowthRate = Some 2,
      exitMultiple = None, useMidYearConvention = None, tradingComps = [],
      taxRate = Some 21 \<rparr>"

text \<open>The same company with costs that use up the whole revenue, and no growth.\<close>

definition zeroEbitdaModel :: FinancialModel where
  "zeroEbitdaModel =
    specScenario\<lparr> growthRate := Some 0, cogsMargin := Some 60, opexMargin := Some 40 \<rparr>"


text \<open>The scenario with a debt of 500,000 and a cash balance of 200,000.\<close>

definition leveredModel :: FinancialModel where
  "leveredModel = specScenario\<lparr> debtBalance := Some 500000, cashBalance := Some 200000 \<rparr>"

text \<open>
  The scenario with 5 percent growth and full-year discounting (the convention is
  switched off).
\<close>

definition slowGrowthModel :: FinancialModel where
  "slowGrowthModel = specScenario\<lparr> growthRate := Some 5, useMidYearConvention := Some False \<rparr>"


text \<open>The defaults of the LBO assumptions (\<open>Number(x) || default\<close>, all absent).\<close>

definition defaultLbo :: LboParams where
  "defaultLbo =
    \<lparr> entryMultiple = 8, exitMultipleLbo = 12, holdingPeriod = 5, debtPercent = 60,
      annualDebtPaydownPct = 6, seniorDebtMultiple = 4, mezDebtMultiple = 1.5,
      seniorInterestRate = 6, mezInterestRate = 12 \<rparr>"

section \<open>Properties of the valuation calculator\<close>

subsection \<open>The discounting loop\<close>

lemma discountLoop_Cons_fst:
  "fst (discountLoop w mid idx s (p # ps)) =
     discountProjection w mid idx p
       # fst (discountLoop w mid (idx + 1) (s + pvOfFcf (discountProjection w mid idx p)) ps)"
  by (simp add: Let_def isFinite_def split: prod.splits)

lemma discountLoop_Cons_snd:
  "snd (discountLoop w mid idx s (p # ps)) =
     snd (discountLoop w mid (idx + 1) (s + pvOfFcf (discountProjection w mid idx p)) ps)"
  by (simp add: Let_def isFinite_def split: prod.splits)

lemma discountLoop_length: "length (fst (discountLoop w mid idx s ps)) = length ps"
  by (induction ps arbitrary: idx s) (simp_all add: discountLoop_Cons_fst del: discountLoop.simps(2))

lemma discountLoop_nth:
  "i < length ps \<Longrightarrow>
     fst (discountLoop w mid idx s ps) ! i = discountProjection w mid (idx + i) (ps ! i)"
proof (induction ps arbitrary: idx s i)
  case Nil
  then show ?case by simp
next
  case (Cons p ps)
  show ?case
  proof (cases i)
    case 0
    then show ?thesis by (simp add: discountLoop_Cons_fst del: discountLoop.simps(2))
  next
    case (Suc j)
    with Cons.prems have "j < length ps" by simp
    from Cons.IH [OF this, of "idx + 1"] Suc show ?thesis
      by (simp add: discountLoop_Cons_fst del: discountLoop.simps(2))
  qed
qed

lemma discountLoop_last:
  assumes "ps \<noteq> []"
  shows "last (fst (discountLoop w mid idx s ps)) =
     discountProjection w mid (idx + (length ps - 1)) (last ps)"
proof -
  from assms have l: "length ps - 1 < length ps" by simp
  have ne: "fst (discountLoop w mid idx s ps) \<noteq> []"
    using assms discountLoop_length [of w mid idx s ps] by (metis length_0_conv)
  show ?thesis
    using discountLoop_nth [OF l, of w mid idx s]
    by (simp add: last_conv_nth assms ne discountLoop_length)
qed

lemma discountProjection_ufcf: "ufcf (discountProjection w mid idx p) = ufcf p"
  by (simp add: discountProjection_def Let_def)

lemma discountProjection_ebitda:
  "YearProjection.ebitda (discountProjection w mid idx p) = YearProjection.ebitda p"
  by (simp add: discountProjection_def Let_def)

lemma discountProjection_eq:
  "0 < 1 + w \<Longrightarrow> discountProjection w mid idx p =
     p\<lparr> discountFactor := 1 / Math_pow (1 + w) (discountPeriod mid idx),
        YearProjection.fcf := ufcf p,
        YearProjection.pvOfFcf := ufcf p * (1 / Math_pow (1 + w) (discountPeriod mid idx)) \<rparr>"
  by (simp add: discountProjection_def Let_def isFinite_def)

lemma modelWacc_pos: "0 < modelWacc m" and modelWacc_base: "0 < 1 + modelWacc m"
  by (simp_all add: modelWacc_def max_def)

subsection \<open>The fields of the valuation\<close>

lemma cv_projections:
  "snd (calculateValuation m ps) = fst (discountLoop (modelWacc m) (modelUseMidYear m) 0 0 ps)"
  by (cases ps)
     (simp_all add: calculateValuation_def Let_def modelWacc_def modelUseMidYear_def
        split: prod.splits)

lemma cv_sumPvFcf:
  "ps \<noteq> [] \<Longrightarrow> sumPvFcf (fst (calculateValuation m ps)) =
     snd (discountLoop (modelWacc m) (modelUseMidYear m) 0 0 ps)"
  by (simp add: calculateValuation_def Let_def modelWacc_def modelUseMidYear_def isFinite_def
        split: prod.splits)

lemma cv_terminalValueGordon:
  assumes "ps \<noteq> []"
  shows "terminalValueGordon (fst (calculateValuation m ps)) =
     (if modelWacc m - modelTerminalGrowth m > 0.001
      then ufcf (last ps) * (1 + modelTerminalGrowth m) / (modelWacc m - modelTerminalGrowth m)
      else 0)"
proof -
  obtain ps' s where dl: "discountLoop (modelWacc m) (modelUseMidYear m) 0 0 ps = (ps', s)"
    by (cases "discountLoop (modelWacc m) (modelUseMidYear m) 0 0 ps")
  have "ufcf (last ps') = ufcf (last ps)"
    using discountLoop_last [OF assms, of "modelWacc m" "modelUseMidYear m" 0 0] dl
    by (simp add: discountProjection_ufcf)
  then show ?thesis
    using assms dl
    by (simp add: calculateValuation_def Let_def modelWacc_def modelUseMidYear_def
          modelTerminalGrowth_def isFinite_def)
qed

lemma cv_terminalValue:
  "ps \<noteq> [] \<Longrightarrow> ValuationOutput.terminalValue (fst (calculateValuation m ps)) =
     terminalValueGordon (fst (calculateValuation m ps))"
  by (simp add: calculateValuation_def Let_def isFinite_def split: prod.splits)

lemma cv_pvOfTerminalValue:
  assumes "ps \<noteq> []"
  shows "pvOfTerminalValue (fst (calculateValuation m ps)) =
     terminalValueGordon (fst (calculateValuation m ps))
       / Math_pow (1 + modelWacc m) (real (length ps))"
proof -
  obtain ps' s where dl: "discountLoop (modelWacc m) (modelUseMidYear m) 0 0 ps = (ps', s)"
    by (cases "discountLoop (modelWacc m) (modelUseMidYear m) 0 0 ps")
  have len: "length ps' = length ps"
    using discountLoop_length [of "modelWacc m" "modelUseMidYear m" 0 0 ps] dl by simp
  have pos: "0 < max (1 / 100) (safeNumber (wacc m) 10 / 100)"
    by (simp add: max_def)
  show ?thesis
    using assms dl len pos
    by (simp add: calculateValuation_def Let_def modelWacc_def modelUseMidYear_def
          isFinite_def tvDiscountPeriod_def)
qed

lemma cv_enterpriseValue:
  "ps \<noteq> [] \<Longrightarrow> ValuationOutput.enterpriseValue (fst (calculateValuation m ps)) =
     sumPvFcf (fst (calculateValuation m ps)) + pvOfTerminalValue (fst (calculateValuation m ps))"
  by (simp add: calculateValuation_def Let_def isFinite_def split: prod.splits)

lemma cv_equityValue:
  "ps \<noteq> [] \<Longrightarrow> ValuationOutput.equityValue (fst (calculateValuation m ps)) =
     ValuationOutput.enterpriseValue (fst (calculateValuation m ps))
       - (safeNumber (debtBalance m) 0 - safeNumber (cashBalance m) 0)"
  by (simp add: calculateValuation_def Let_def isFinite_def split: prod.splits)

lemma cv_impliedMultiple:
  assumes "ps \<noteq> []"
  shows "impliedMultiple (fst (calculateValuation m ps)) =
     ValuationOutput.enterpriseValue (fst (calculateValuation m ps))
       / orElse (YearProjection.ebitda (last ps)) 1"
proof -
  obtain ps' s where dl: "discountLoop (modelWacc m) (modelUseMidYear m) 0 0 ps = (ps', s)"
    by (cases "discountLoop (modelWacc m) (modelUseMidYear m) 0 0 ps")
  have "YearProjection.ebitda (last ps') = YearProjection.ebitda (last ps)"
    using discountLoop_last [OF assms, of "modelWacc m" "modelUseMidYear m" 0 0] dl
    by (simp add: discountProjection_ebitda)
  then show ?thesis
    using assms dl
    by (simp add: calculateValuation_def Let_def modelWacc_def modelUseMidYear_def
          isFinite_def orElse_def)
qed

lemma calculateProjections_length: "length (calculateProjections m) = 5"
  by (simp add: calculateProjections_def Let_def eval_nat_numeral)

lemma calculateProjections_nonempty: "calculateProjections m \<noteq> []"
  using calculateProjections_length [of m] by auto

subsection \<open>The specification's scenario, evaluated\<close>

lemma specScenario_ufcf:
  "map ufcf (calculateProjections specScenario) = [41336, 203700, 234255, 269393, 309804]"
  by code_simp

lemma specScenario_last_ufcf: "ufcf (last (calculateProjections specScenario)) = 309804"
  by code_simp

lemma specScenario_wacc: "modelWacc specScenario = 1 / 10"
  by (simp add: modelWacc_def specScenario_def safeNumber_def)

lemma specScenario_growth: "modelTerminalGrowth specScenario = 2 / 100"
  by (simp add: modelTerminalGrowth_def specScenario_def safeNumber_def)

subsection \<open>Discounting cash flows that are all negative\<close>

lemma Math_pow_pos: "0 < b \<Longrightarrow> 0 < Math_pow b e"
  by (simp add: Math_pow_def)

lemma pvOfFcf_discountProjection:
  "0 < 1 + w \<Longrightarrow> YearProjection.pvOfFcf (discountProjection w mid idx p) =
     ufcf p * (1 / Math_pow (1 + w) (discountPeriod mid idx))"
  by (simp add: discountProjection_eq)

lemma discountLoop_snd_le:
  assumes "0 < 1 + w" "\<forall>p\<in>set ps. ufcf p < 0"
  shows "snd (discountLoop w mid idx s ps) \<le> s"
  using assms(2)
proof (induction ps arbitrary: idx s)
  case Nil
  then show ?case by simp
next
  case (Cons p ps)
  have "ufcf p < 0" using Cons.prems by simp
  moreover have "0 < 1 / Math_pow (1 + w) (discountPeriod mid idx)"
    using assms(1) by (simp add: Math_pow_pos)
  ultimately have neg: "ufcf p * (1 / Math_pow (1 + w) (discountPeriod mid idx)) < 0"
    by (rule mult_neg_pos)
  have "snd (discountLoop w mid (idx + 1)
          (s + YearProjection.pvOfFcf (discountProjection w mid idx p)) ps)
        \<le> s + YearProjection.pvOfFcf (discountProjection w mid idx p)"
    using Cons.IH Cons.prems by simp
  then show ?case
    using neg assms(1) by (simp add: discountLoop_Cons_snd pvOfFcf_discountProjection
      del: discountLoop.simps(2))
qed

subsection \<open>The company without EBITDA, evaluated\<close>

lemma zeroEbitda_ufcf:
  "map ufcf (calculateProjections zeroEbitdaModel) = [- 212103, - 39500, - 39500, - 39500, - 39500]"
  by code_simp

lemma zeroEbitda_last:
  "ufcf (last (calculateProjections zeroEbitdaModel)) = - 39500"
  "YearProjection.ebitda (last (calculateProjections zeroEbitdaModel)) = 0"
  by code_simp+

lemma zeroEbitda_neg: "\<forall>p\<in>set (calculateProjections zeroEbitdaModel). ufcf p < 0"
proof -
  have "\<forall>u\<in>set (map ufcf (calculateProjections zeroEbitdaModel)). u < 0"
    unfolding zeroEbitda_ufcf by simp
  then show ?thesis by simp
qed

lemma zeroEbitda_consts:
  "modelWacc zeroEbitdaModel = 1 / 10" "modelTerminalGrowth zeroEbitdaModel = 2 / 100"
  by (simp_all add: modelWacc_def modelTerminalGrowth_def zeroEbitdaModel_def specScenario_def
        safeNumber_def)

lemma specScenario_midYear: "modelUseMidYear specScenario"
  by (simp add: modelUseMidYear_def specScenario_def)

lemma specScenario_discountFactor0:
  "discountFactor (calculateProjections specScenario ! 0) = 0"
  by code_simp

section \<open>Properties of the projection builder\<close>







section \<open>Properties of the trading comps calculator\<close>







section \<open>Properties of the LBO debt schedule\<close>

lemma debtScheduleYear_fields:
  assumes "d = debtScheduleYear lbo seniorDebt0 yr proj seniorBalance mezBalance"
  shows "beginSenior d = seniorBalance"
    and "seniorAmort d = min (seniorDebt0 * (annualDebtPaydownPct lbo / 100)) (beginSenior d)"
    and "cashSweep d = max 0 (min (DebtScheduleYear.fcf d * 0.5) (beginSenior d - seniorAmort d))"
    and "endSenior d = max 0 (beginSenior d - seniorAmort d - cashSweep d)"
    and "distributableFcf d = DebtScheduleYear.fcf d - cashSweep d"
  unfolding assms debtScheduleYear_def Let_def by simp_all

lemma sweep_bounds:
  fixes f b a m :: real
  assumes "a = min m b" "c = max 0 (min f (b - a))"
  shows "0 \<le> c" and "c \<le> b - a" and "max 0 (b - a - c) = b - a - c"
  using assms by (simp_all add: max_def min_def)

lemma debtScheduleYear_sweep:
  assumes "d = debtScheduleYear lbo seniorDebt0 yr proj seniorBalance mezBalance"
  shows "0 \<le> cashSweep d"
    and "cashSweep d \<le> beginSenior d - seniorAmort d"
    and "endSenior d = beginSenior d - seniorAmort d - cashSweep d"
    and "0 \<le> endSenior d"
proof -
  note f = debtScheduleYear_fields [OF assms]
  note b = sweep_bounds [OF f(2) f(3)]
  show "0 \<le> cashSweep d" by (rule b(1))
  show "cashSweep d \<le> beginSenior d - seniorAmort d" by (rule b(2))
  show "endSenior d = beginSenior d - seniorAmort d - cashSweep d"
    using f(4) b(3) by simp
  show "0 \<le> endSenior d"
    by (subst f(4)) simp
qed

lemma debtScheduleLoop_members:
  "d \<in> set (debtScheduleLoop lbo seniorDebt0 projections yr seniorBalance mezBalance) \<Longrightarrow>
     \<exists>yr' proj bal mez. d = debtScheduleYear lbo seniorDebt0 yr' proj bal mez"
proof (induction lbo seniorDebt0 projections yr seniorBalance mezBalance
    rule: debtScheduleLoop.induct)
  case (1 lbo seniorDebt0 projections yr seniorBalance mezBalance)
  show ?case
  proof (cases "yr < holdingPeriod lbo \<and> yr < length projections")
    case True
    let ?d = "debtScheduleYear lbo seniorDebt0 yr (projections ! yr) seniorBalance mezBalance"
    from "1.prems" True have "d = ?d \<or>
        d \<in> set (debtScheduleLoop lbo seniorDebt0 projections (yr + 1) (endSenior ?d) (endMez ?d))"
      by (subst (asm) debtScheduleLoop.simps) (simp add: Let_def)
    then show ?thesis
    proof
      assume "d = ?d"
      then show ?thesis by blast
    next
      assume "d \<in> set (debtScheduleLoop lbo seniorDebt0 projections (yr + 1)
                 (endSenior ?d) (endMez ?d))"
      with "1.IH" [OF True refl] show ?thesis by simp
    qed
  next
    case False
    have "debtScheduleLoop lbo seniorDebt0 projections yr seniorBalance mezBalance = []"
      by (subst debtScheduleLoop.simps) (simp only: False if_False)
    with "1.prems" show ?thesis by simp
  qed
qed

lemma scenarioYear_eq:
  "scenarioYear lbo sd proj bal mez =
     (distributableFcf (debtScheduleYear lbo sd yr proj bal mez),
      endSenior (debtScheduleYear lbo sd yr proj bal mez))"
  unfolding scenarioYear_def debtScheduleYear_def Let_def by simp

lemma endMez_debtScheduleYear: "endMez (debtScheduleYear lbo sd yr proj bal mez) = mez"
  unfolding debtScheduleYear_def Let_def by simp

lemma scenarioLoop_debtSchedule:
  "scenarioLoop lbo sd ps yr bal mez acc =
     (acc @ map distributableFcf (debtScheduleLoop lbo sd ps yr bal mez),
      last (bal # map endSenior (debtScheduleLoop lbo sd ps yr bal mez)))"
proof (induction lbo sd ps yr bal mez acc rule: scenarioLoop.induct)
  case (1 lbo sd ps yr bal mez acc)
  show ?case
  proof (cases "yr < holdingPeriod lbo \<and> yr < length ps")
    case True
    let ?d = "debtScheduleYear lbo sd yr (ps ! yr) bal mez"
    have y: "scenarioYear lbo sd (ps ! yr) bal mez = (distributableFcf ?d, endSenior ?d)"
      by (rule scenarioYear_eq)
    have "scenarioLoop lbo sd ps yr bal mez acc =
        scenarioLoop lbo sd ps (yr + 1) (endSenior ?d) mez (acc @ [distributableFcf ?d])"
      using True by (subst scenarioLoop.simps) (simp add: y Let_def)
    also have "\<dots> = ((acc @ [distributableFcf ?d])
          @ map distributableFcf (debtScheduleLoop lbo sd ps (yr + 1) (endSenior ?d) mez),
        last (endSenior ?d
          # map endSenior (debtScheduleLoop lbo sd ps (yr + 1) (endSenior ?d) mez)))"
      using "1.IH" [OF True refl] by (simp add: y)
    also have "\<dots> = (acc @ map distributableFcf (debtScheduleLoop lbo sd ps yr bal mez),
        last (bal # map endSenior (debtScheduleLoop lbo sd ps yr bal mez)))"
      using True
      by (subst (3 4) debtScheduleLoop.simps) (simp add: Let_def endMez_debtScheduleYear)
    finally show ?thesis .
  next
    case False
    have "debtScheduleLoop lbo sd ps yr bal mez = []"
      by (subst debtScheduleLoop.simps) (simp only: False if_False)
    moreover have "scenarioLoop lbo sd ps yr bal mez acc = (acc, bal)"
      by (subst scenarioLoop.simps) (simp only: False if_False)
    ultimately show ?thesis by simp
  qed
qed

lemma debtScheduleLoop_step:
  assumes "yr < holdingPeriod lbo" "yr < length ps"
  shows "debtScheduleLoop lbo sd ps yr bal mez =
     debtScheduleYear lbo sd yr (ps ! yr) bal mez
       # debtScheduleLoop lbo sd ps (yr + 1)
           (endSenior (debtScheduleYear lbo sd yr (ps ! yr) bal mez)) mez"
  using assms by (subst debtScheduleLoop.simps) (simp add: Let_def endMez_debtScheduleYear)

lemma specScenario_debt:
  "seniorDebt defaultLbo (calculateProjections specScenario) = 1200000"
  "mezDebt defaultLbo (calculateProjections specScenario) = 240000"
  "endSenior (debtScheduleYear defaultLbo 1200000 0 (calculateProjections specScenario ! 0)
     1200000 240000) = 1128000"
  by code_simp+

lemma specScenario_debt_year2:
  "beginSenior (debtScheduleYear defaultLbo 1200000 1 (calculateProjections specScenario ! 1)
     1128000 240000) = 1128000"
  "seniorAmort (debtScheduleYear defaultLbo 1200000 1 (calculateProjections specScenario ! 1)
     1128000 240000) = 72000"
  "cashSweep (debtScheduleYear defaultLbo 1200000 1 (calculateProjections specScenario ! 1)
     1128000 240000) = 33465 / 2"
  "endSenior (debtScheduleYear defaultLbo 1200000 1 (calculateProjections specScenario ! 1)
     1128000 240000) = 2078535 / 2"
  by code_simp+

lemma specScenario_debtSchedule:
  "\<exists>d0 rest. debtSchedule defaultLbo (calculateProjections specScenario) =
     d0 # debtScheduleYear defaultLbo 1200000 1 (calculateProjections specScenario ! 1)
            1128000 240000 # rest"
proof -
  have h: "0 < holdingPeriod defaultLbo" "Suc 0 < holdingPeriod defaultLbo"
    by (simp_all add: defaultLbo_def)
  have l: "0 < length (calculateProjections specScenario)"
    "Suc 0 < length (calculateProjections specScenario)"
    by (simp_all add: calculateProjections_length)
  show ?thesis
    unfolding debtSchedule_def specScenario_debt
    by (subst debtScheduleLoop_step [OF h(1) l(1)], subst debtScheduleLoop_step)
       (simp_all add: h l specScenario_debt)
qed


lemma debtScheduleLoop_endSenior_nonneg:
  "0 \<le> bal \<Longrightarrow> 0 \<le> last (bal # map endSenior (debtScheduleLoop lbo sd ps yr bal mez))"
proof (induction lbo sd ps yr bal mez rule: debtScheduleLoop.induct)
  case (1 lbo sd ps yr bal mez)
  show ?case
  proof (cases "yr < holdingPeriod lbo \<and> yr < length ps")
    case True
    let ?d = "debtScheduleYear lbo sd yr (ps ! yr) bal mez"
    have e: "0 \<le> endSenior ?d"
      by (rule debtScheduleYear_sweep(4) [OF refl])
    have "debtScheduleLoop lbo sd ps yr bal mez =
        ?d # debtScheduleLoop lbo sd ps (yr + 1) (endSenior ?d) (endMez ?d)"
      using True by (subst debtScheduleLoop.simps) (simp add: Let_def)
    with "1.IH" [OF True refl e] show ?thesis by simp
  next
    case False
    have "debtScheduleLoop lbo sd ps yr bal mez = []"
      by (subst debtScheduleLoop.simps) (simp only: False if_False)
    with "1.prems" show ?thesis by simp
  qed
qed

section \<open>Properties of the breakdown formatter\<close>

lemma equity_breakdown:
  "map value (steps (ValuationBreakdown.equityValue
       (valuationBreakdown (calculateBreakdowns model projections valuation)))) =
     [ValuationOutput.enterpriseValue valuation, safeNumber (debtBalance model) 0,
      ValuationOutput.equityValue valuation]"
  "finalValue (ValuationBreakdown.equityValue
       (valuationBreakdown (calculateBreakdowns model projections valuation))) =
     ValuationOutput.equityValue valuation"
  unfolding calculateBreakdowns_def Let_def
  by (simp_all only: ModelBreakdowns.select_convs ValuationBreakdown.select_convs
        MetricBreakdown.select_convs BreakdownStep.select_convs list.map)

text \<open>
  The ``Taxes on EBIT'' step of the UFCF breakdown is computed by the formatter itself
  and is 0 on a negative EBIT, while the NOPAT of the projection keeps the tax factor:
  for the company without EBITDA the first three steps of year 1 are EBIT -50000,
  taxes 0, NOPAT -39500.
\<close>

lemma zeroEbitda_tax_step:
  "map value (take 3 (steps (YearBreakdowns.ufcf
      (yearlyBreakdowns (breakdownsOf zeroEbitdaModel) ! 0)))) = [- 50000, 0, - 39500]"
proof -
  have l: "0 < length (calculateProjections zeroEbitdaModel)"
    by (simp add: calculateProjections_length)
  have p: "YearProjection.ebit (calculateProjections zeroEbitdaModel ! 0) = - 50000"
    "nopat (calculateProjections zeroEbitdaModel ! 0) = - 39500"
    by code_simp+
  have "projectionsAfterValuation zeroEbitdaModel ! 0 =
      discountProjection (modelWacc zeroEbitdaModel) (modelUseMidYear zeroEbitdaModel) 0
        (calculateProjections zeroEbitdaModel ! 0)"
    using discountLoop_nth [OF l, of "modelWacc zeroEbitdaModel" "modelUseMidYear zeroEbitdaModel" 0 0]
    by (simp add: projectionsAfterValuation_def cv_projections)
  then have q: "YearProjection.ebit (projectionsAfterValuation zeroEbitdaModel ! 0) = - 50000"
    "nopat (projectionsAfterValuation zeroEbitdaModel ! 0) = - 39500"
    using p by (simp_all add: discountProjection_def Let_def)
  have len: "0 < length (projectionsAfterValuation zeroEbitdaModel)"
    by (simp add: projectionsAfterValuation_def cv_projections discountLoop_length
          calculateProjections_length)
  show ?thesis
    using q len
    by (simp add: breakdownsOf_def calculateBreakdowns_def Let_def yearBreakdown_def
          Math_round_def)
qed

section \<open>Properties of the sensitivity engine\<close>

lemma projection_inputs_kept:
  "growthRate (m\<lparr> wacc := w, terminalGrowthRate := g \<rparr>) = growthRate m"
  "cogsMargin (m\<lparr> wacc := w, terminalGrowthRate := g \<rparr>) = cogsMargin m"
  "opexMargin (m\<lparr> wacc := w, terminalGrowthRate := g \<rparr>) = opexMargin m"
  "daMargin (m\<lparr> wacc := w, terminalGrowthRate := g \<rparr>) = daMargin m"
  "interestRate (m\<lparr> wacc := w, terminalGrowthRate := g \<rparr>) = interestRate m"
  "debtBalance (m\<lparr> wacc := w, terminalGrowthRate := g \<rparr>) = debtBalance m"
  "taxRate (m\<lparr> wacc := w, terminalGrowthRate := g \<rparr>) = taxRate m"
  "arDays (m\<lparr> wacc := w, terminalGrowthRate := g \<rparr>) = arDays m"
  "inventoryDays (m\<lparr> wacc := w, terminalGrowthRate := g \<rparr>) = inventoryDays m"
  "apDays (m\<lparr> wacc := w, terminalGrowthRate := g \<rparr>) = apDays m"
  "capexPercent (m\<lparr> wacc := w, terminalGrowthRate := g \<rparr>) = capexPercent m"
  "maintenanceCapexPercent (m\<lparr> wacc := w, terminalGrowthRate := g \<rparr>) =
     maintenanceCapexPercent m"
  "startingRevenue (m\<lparr> wacc := w, terminalGrowthRate := g \<rparr>) = startingRevenue m"
  by simp_all

lemma projectYear_ignores_valuation_inputs:
  "projectYear (m\<lparr> wacc := w, terminalGrowthRate := g \<rparr>) yr r nwc = projectYear m yr r nwc"
  unfolding projectYear_def projection_inputs_kept ..

lemma nextRevenue_ignores_valuation_inputs:
  "nextRevenue (m\<lparr> wacc := w, terminalGrowthRate := g \<rparr>) r = nextRevenue m r"
  unfolding nextRevenue_def projection_inputs_kept ..

lemma projectionLoop_ignores_valuation_inputs:
  "projectionLoop (m\<lparr> wacc := w, terminalGrowthRate := g \<rparr>) k yr r nwc =
     projectionLoop m k yr r nwc"
proof (induction k arbitrary: yr r nwc)
  case 0
  show ?case by simp
next
  case (Suc k)
  show ?case
    unfolding projectionLoop.simps projectYear_ignores_valuation_inputs
      nextRevenue_ignores_valuation_inputs Suc.IH ..
qed

lemma calculateProjections_ignores_valuation_inputs:
  "calculateProjections (m\<lparr> wacc := w, terminalGrowthRate := g \<rparr>) = calculateProjections m"
  unfolding calculateProjections_def projectionLoop_ignores_valuation_inputs
    projection_inputs_kept ..

lemma calculateValuation_base_inputs:
  "calculateValuation
     (m\<lparr> wacc := Some (safeNumber (wacc m) 10),
         terminalGrowthRate := Some (safeNumber (terminalGrowthRate m) 2) \<rparr>) ps =
   calculateValuation m ps"
proof -
  let ?m = "m\<lparr> wacc := Some (safeNumber (wacc m) 10),
         terminalGrowthRate := Some (safeNumber (terminalGrowthRate m) 2) \<rparr>"
  have a: "safeNumber (wacc ?m) 10 = safeNumber (wacc m) 10"
    "safeNumber (terminalGrowthRate ?m) 2 = safeNumber (terminalGrowthRate m) 2"
    "exitMultiple ?m = exitMultiple m" "debtBalance ?m = debtBalance m"
    "cashBalance ?m = cashBalance m"
    "FinancialModel.sharesOutstanding ?m = FinancialModel.sharesOutstanding m"
    "useMidYearConvention ?m = useMidYearConvention m"
    by (simp_all add: safeNumber_def)
  show ?thesis
    unfolding calculateValuation_def a ..
qed

lemma waccVsGrowthCell_base:
  "waccVsGrowthCell m (safeNumber (wacc m) 10) (safeNumber (terminalGrowthRate m) 2) =
     Math_round (ValuationOutput.enterpriseValue (valuationOf m))"
  by (simp add: waccVsGrowthCell_def Let_def valuationOf_def
        calculateProjections_ignores_valuation_inputs calculateValuation_base_inputs)

lemma waccVsGrowth_grid:
  "rowValues (waccVsGrowth (calculateSensitivity m ps)) =
     [safeNumber (wacc m) 10 - 2, safeNumber (wacc m) 10 - 1, safeNumber (wacc m) 10,
      safeNumber (wacc m) 10 + 1, safeNumber (wacc m) 10 + 2]"
  "colValues (waccVsGrowth (calculateSensitivity m ps)) =
     [safeNumber (terminalGrowthRate m) 2 - 1, safeNumber (terminalGrowthRate m) 2 - 0.5,
      safeNumber (terminalGrowthRate m) 2, safeNumber (terminalGrowthRate m) 2 + 0.5,
      safeNumber (terminalGrowthRate m) 2 + 1]"
  "data (waccVsGrowth (calculateSensitivity m ps)) ! 2 ! 2 =
     waccVsGrowthCell m (safeNumber (wacc m) 10) (safeNumber (terminalGrowthRate m) 2)"
  by (simp_all add: calculateSensitivity_def Let_def eval_nat_numeral)

lemma fixed_grids:
  "rowValues (entryVsExit (calculateSensitivity m ps)) = [6, 7, 8, 9, 10]"
  "colValues (entryVsExit (calculateSensitivity m ps)) = [10, 11, 12, 13, 14]"
  "rowValues (revenueGrowthVsMargin (calculateSensitivity m ps)) = [10, 12.5, 15, 17.5, 20]"
  "colValues (revenueGrowthVsMargin (calculateSensitivity m ps)) = [25, 27.5, 30, 32.5, 35]"
  by (simp_all add: calculateSensitivity_def Let_def)

subsection \<open>The scenario with slow growth and full-year discounting, evaluated\<close>

lemma discountLoop_snd_sum:
  assumes "0 < 1 + w"
  shows "snd (discountLoop w mid idx s ps) =
     s + (\<Sum>i<length ps. ufcf (ps ! i) * (1 / Math_pow (1 + w) (discountPeriod mid (idx + i))))"
proof (induction ps arbitrary: idx s)
  case Nil
  then show ?case by simp
next
  case (Cons p ps)
  show ?case
    using assms
    by (simp add: discountLoop_Cons_snd pvOfFcf_discountProjection Cons.IH
          sum.lessThan_Suc_shift del: discountLoop.simps(2) sum.lessThan_Suc)
qed

lemma slowGrowth_consts:
  "modelWacc slowGrowthModel = 1 / 10" "modelTerminalGrowth slowGrowthModel = 2 / 100"
  "modelUseMidYear slowGrowthModel = False"
  by (simp_all add: modelWacc_def modelTerminalGrowth_def modelUseMidYear_def slowGrowthModel_def
        specScenario_def safeNumber_def)

lemma slowGrowth_ufcf:
  "ufcf (calculateProjections slowGrowthModel ! 0) = 41336"
  "ufcf (calculateProjections slowGrowthModel ! Suc 0) = 199567"
  "ufcf (calculateProjections slowGrowthModel ! Suc (Suc 0)) = 209545"
  "ufcf (calculateProjections slowGrowthModel ! Suc (Suc (Suc 0))) = 220022"
  "ufcf (calculateProjections slowGrowthModel ! Suc (Suc (Suc (Suc 0)))) = 231024"
  "ufcf (last (calculateProjections slowGrowthModel)) = 231024"
  by code_simp+

lemma slowGrowth_sumPv:
  "sumPvFcf (valuationOf slowGrowthModel) =
     41336 / (11 / 10) + 199567 / (11 / 10) ^ 2 + 209545 / (11 / 10) ^ 3
       + 220022 / (11 / 10) ^ 4 + 231024 / (11 / 10) ^ 5"
  unfolding valuationOf_def
  by (simp add: cv_sumPvFcf [OF calculateProjections_nonempty]
        discountLoop_snd_sum calculateProjections_length
        slowGrowth_consts discountPeriod_def Math_pow_def eval_nat_numeral slowGrowth_ufcf
        power_divide)

lemma slowGrowth_pvTv:
  "pvOfTerminalValue (valuationOf slowGrowthModel) =
     (231024 * (1 + 2 / 100) / (1 / 10 - 2 / 100)) / (11 / 10) ^ 5"
  unfolding valuationOf_def
  by (simp add: cv_pvOfTerminalValue [OF calculateProjections_nonempty]
        cv_terminalValueGordon [OF calculateProjections_nonempty] calculateProjections_length
        slowGrowth_consts Math_pow_def slowGrowth_ufcf)

lemma slowGrowth_ev:
  "ValuationOutput.enterpriseValue (valuationOf slowGrowthModel) = 36348157860 / 14641"
proof -
  have "ValuationOutput.enterpriseValue (valuationOf slowGrowthModel) =
      sumPvFcf (valuationOf slowGrowthModel) + pvOfTerminalValue (valuationOf slowGrowthModel)"
    unfolding valuationOf_def by (rule cv_enterpriseValue [OF calculateProjections_nonempty])
  then show ?thesis
    unfolding slowGrowth_sumPv slowGrowth_pvTv by (simp add: power_divide)
qed

section \<open>Properties of the IRR solver\<close>

lemma Math_pow_nat: "0 < b \<Longrightarrow> Math_pow b (real n) = b ^ n"
  by (simp add: Math_pow_def powr_realpow)

lemma Math_pow_Suc: "0 < b \<Longrightarrow> Math_pow b (real n + 1) = b ^ Suc n"
  using Math_pow_nat [of b "Suc n"] by (simp add: add.commute)

lemma npvLoop_singlePayoff:
  assumes "0 < 1 + rate"
  shows "npvLoop rate 0 (singlePayoff r) 0 0 =
     (- 100 + 100 * (1 + r) ^ 5 / (1 + rate) ^ 5,
      - (500 * (1 + r) ^ 5 / (1 + rate) ^ 6))"
proof -
  have p: "\<And>n. Math_pow (1 + rate) (real n) = (1 + rate) ^ n"
    "\<And>n. Math_pow (1 + rate) (real n + 1) = (1 + rate) ^ Suc n"
    using assms by (simp_all add: Math_pow_nat Math_pow_Suc)
  have "npvLoop rate 0 (singlePayoff r) 0 0 =
      (0 + - 100 / Math_pow (1 + rate) (real 0) + 0 / Math_pow (1 + rate) (real (0 + 1))
         + 0 / Math_pow (1 + rate) (real (0 + 1 + 1))
         + 0 / Math_pow (1 + rate) (real (0 + 1 + 1 + 1))
         + 0 / Math_pow (1 + rate) (real (0 + 1 + 1 + 1 + 1))
         + 100 * (1 + r) ^ 5 / Math_pow (1 + rate) (real (0 + 1 + 1 + 1 + 1 + 1)),
       0 - real 0 * - 100 / Math_pow (1 + rate) (real 0 + 1)
         - real (0 + 1) * 0 / Math_pow (1 + rate) (real (0 + 1) + 1)
         - real (0 + 1 + 1) * 0 / Math_pow (1 + rate) (real (0 + 1 + 1) + 1)
         - real (0 + 1 + 1 + 1) * 0 / Math_pow (1 + rate) (real (0 + 1 + 1 + 1) + 1)
         - real (0 + 1 + 1 + 1 + 1) * 0 / Math_pow (1 + rate) (real (0 + 1 + 1 + 1 + 1) + 1)
         - real (0 + 1 + 1 + 1 + 1 + 1) * (100 * (1 + r) ^ 5)
             / Math_pow (1 + rate) (real (0 + 1 + 1 + 1 + 1 + 1) + 1))"
    unfolding singlePayoff_def npvLoop.simps ..
  also have "\<dots> = (- 100 + 100 * (1 + r) ^ 5 / (1 + rate) ^ 5,
      - (500 * (1 + r) ^ 5 / (1 + rate) ^ 6))"
    unfolding p by (simp add: eval_nat_numeral)
  finally show ?thesis .
qed

lemma irrLoop_singlePayoff_Suc:
  assumes "0 < 1 + rate"
  shows "irrLoop (singlePayoff r) (Suc k) rate =
     (if \<bar>- 100 + 100 * (1 + r) ^ 5 / (1 + rate) ^ 5\<bar> < 0.0001 then rate
      else if \<bar>- (500 * (1 + r) ^ 5 / (1 + rate) ^ 6)\<bar> < 0.0001 then rate
      else irrLoop (singlePayoff r) k
             (let rate1 = rate - (- 100 + 100 * (1 + r) ^ 5 / (1 + rate) ^ 5)
                                   / (- (500 * (1 + r) ^ 5 / (1 + rate) ^ 6));
                  rate2 = (if rate1 < - 0.99 then - 0.99 else rate1)
              in if rate2 > 10 then 10 else rate2))"
  by (simp only: irrLoop.simps npvLoop_singlePayoff [OF assms] Let_def prod.case)

subsection \<open>The Newton map on the ratio\<close>

lemma newton_map_identity:
  fixes u :: real
  shows "5 - 6 * u + u ^ 6 = (1 - u)\<^sup>2 * (u ^ 4 + 2 * u ^ 3 + 3 * u\<^sup>2 + 4 * u + 5)"
  by algebra

lemma newton_map_le_one:
  fixes u :: real
  assumes "0 \<le> u"
  shows "u * (6 - u ^ 5) / 5 \<le> 1"
proof -
  define c where "c = u ^ 6"
  define d where "d = u * (6 - u ^ 5)"
  have "0 \<le> (1 - u)\<^sup>2 * (u ^ 4 + 2 * u ^ 3 + 3 * u\<^sup>2 + 4 * u + 5)"
    using assms by (intro mult_nonneg_nonneg add_nonneg_nonneg) simp_all
  then have "0 \<le> 5 - 6 * u + c"
    unfolding c_def by (subst newton_map_identity)
  moreover have "d = 6 * u - c"
    by (simp add: d_def c_def algebra_simps power_Suc [symmetric] eval_nat_numeral)
  ultimately have "d / 5 \<le> 1" by linarith
  then show ?thesis by (simp only: d_def)
qed

lemma newton_map_ge:
  fixes u :: real
  assumes "0 \<le> u" "u \<le> 1"
  shows "u \<le> u * (6 - u ^ 5) / 5"
proof -
  have "u ^ 5 \<le> 1" using assms by (simp add: power_le_one)
  then have "u * 5 \<le> u * (6 - u ^ 5)"
    using assms(1) by (intro mult_left_mono) simp_all
  then show ?thesis by simp
qed

lemma newton_map_quadratic:
  fixes u :: real
  assumes "0 \<le> u" "u \<le> 1"
  shows "1 - u * (6 - u ^ 5) / 5 \<le> 3 * (1 - u)\<^sup>2"
proof -
  define a where "a = (1 - u)\<^sup>2"
  define b where "b = u ^ 4 + 2 * u ^ 3 + 3 * u\<^sup>2 + 4 * u + 5"
  define c where "c = u ^ 6"
  have p: "u ^ 4 \<le> 1" "u ^ 3 \<le> 1" "u\<^sup>2 \<le> 1"
    using assms by (simp_all add: power_le_one)
  then have "b \<le> 15"
    using assms(2) by (simp add: b_def)
  moreover have "0 \<le> a" by (simp add: a_def)
  ultimately have "a * b \<le> a * 15"
    by (rule mult_left_mono)
  moreover have "5 - 6 * u + c = a * b"
    unfolding a_def b_def c_def by (rule newton_map_identity)
  ultimately have le: "5 - 6 * u + c \<le> a * 15"
    by simp
  define d where "d = u * (6 - u ^ 5)"
  have "d = 6 * u - c"
    by (simp add: d_def c_def algebra_simps power_Suc [symmetric] eval_nat_numeral)
  with le have "1 - d / 5 \<le> 3 * a"
    by linarith
  then have "1 - u * (6 - u ^ 5) / 5 \<le> 3 * a"
    by (simp only: d_def)
  then show ?thesis by (simp add: a_def)
qed

lemma newton_map_linear:
  fixes u :: real
  assumes "0 \<le> u" "u \<le> 4 / 5"
  shows "9 / 8 * u \<le> u * (6 - u ^ 5) / 5"
proof -
  have "u ^ 5 \<le> (4 / 5) ^ 5"
    using assms by (intro power_mono) simp_all
  also have "\<dots> \<le> (3 / 8 :: real)"
    by (simp add: power_divide)
  finally have "u * (45 / 8) \<le> u * (6 - u ^ 5)"
    using assms(1) by (intro mult_left_mono) simp_all
  then show ?thesis by simp
qed

subsection \<open>One iteration, in terms of the ratio\<close>

lemma npv_ratio:
  fixes u R :: real
  assumes "0 < u" "0 < R"
  shows "- 100 + 100 * R ^ 5 / (u * R) ^ 5 = 100 * (1 / u ^ 5 - 1)"
    and "- (500 * R ^ 5 / (u * R) ^ 6) = - (500 / (u ^ 6 * R))"
proof -
  have six: "R ^ 6 = R ^ 5 * R" "u ^ 6 = u ^ 5 * u"
    by (simp_all add: eval_nat_numeral)
  show "- 100 + 100 * R ^ 5 / (u * R) ^ 5 = 100 * (1 / u ^ 5 - 1)"
    using assms by (simp add: power_mult_distrib field_simps)
  show "- (500 * R ^ 5 / (u * R) ^ 6) = - (500 / (u ^ 6 * R))"
    using assms by (simp add: power_mult_distrib six)
qed

lemma newton_ratio:
  fixes u R :: real
  assumes "0 < u" "0 < R"
  shows "(u * R - 1) - (- 100 + 100 * R ^ 5 / (u * R) ^ 5) / (- (500 * R ^ 5 / (u * R) ^ 6)) =
     u * (6 - u ^ 5) / 5 * R - 1"
proof -
  have "(- 100 + 100 * R ^ 5 / (u * R) ^ 5) / (- (500 * R ^ 5 / (u * R) ^ 6)) =
      100 * (1 / u ^ 5 - 1) / (- (500 / (u ^ 6 * R)))"
    by (simp only: npv_ratio [OF assms])
  also have "\<dots> = - ((1 / u ^ 5 - 1) * (u ^ 6 * R) / 5)"
    using assms by simp
  also have "\<dots> = - ((u - u ^ 6) * R / 5)"
  proof -
    have "(1 / u ^ 5 - 1) * u ^ 6 = u - u ^ 6"
      using assms(1) by (simp add: field_simps eval_nat_numeral)
    then have "(1 / u ^ 5 - 1) * (u ^ 6 * R) = (u - u ^ 6) * R"
      by (metis mult.assoc)
    then show ?thesis by simp
  qed
  finally show ?thesis
    by (simp add: algebra_simps eval_nat_numeral)
qed

lemma close_of_npv:
  fixes u R :: real
  assumes "0 < u" "0 < R" "R \<le> 11" "\<bar>100 * (1 / u ^ 5 - 1)\<bar> < 0.0001"
  shows "\<bar>u * R - R\<bar> < 1 / 10000"
proof -
  define q where "q = 1 / u"
  have q: "0 < q" using assms(1) by (simp add: q_def)
  have u: "u = 1 / q" by (simp add: q_def)
  have "1 / u ^ 5 = q ^ 5" by (simp add: q_def power_divide)
  define t where "t = q ^ 5 - 1"
  from \<open>1 / u ^ 5 = q ^ 5\<close> assms(4) have "\<bar>100 * t\<bar> < 1 / 10000"
    by (simp add: t_def)
  then have "\<bar>t\<bar> < 1 / 1000000" by linarith
  then have b: "\<bar>q ^ 5 - 1\<bar> < 1 / 1000000" by (simp add: t_def)
  have fac: "q ^ 5 - 1 = (q - 1) * (q ^ 4 + q ^ 3 + q\<^sup>2 + q + 1)" by algebra
  have big: "1 \<le> q ^ 4 + q ^ 3 + q\<^sup>2 + q + 1" using q by simp
  have "\<bar>q - 1\<bar> * 1 \<le> \<bar>q - 1\<bar> * (q ^ 4 + q ^ 3 + q\<^sup>2 + q + 1)"
    using big by (intro mult_left_mono) simp_all
  also have "\<dots> = \<bar>q ^ 5 - 1\<bar>"
    using big by (simp add: fac abs_mult)
  finally have d: "\<bar>q - 1\<bar> < 1 / 1000000" using b by simp
  then have qlo: "1 / 2 \<le> q" by linarith
  have "u * R - R = R * (1 - q) / q"
    using q by (simp add: u field_simps)
  then have "\<bar>u * R - R\<bar> = R * \<bar>q - 1\<bar> / q"
    using q assms(2) by (simp add: abs_mult abs_minus_commute)
  also have "\<dots> \<le> 11 * \<bar>q - 1\<bar> / q"
    using assms(3) q by (intro divide_right_mono mult_right_mono) simp_all
  also have "\<dots> \<le> 11 * \<bar>q - 1\<bar> / (1 / 2)"
    using qlo by (intro divide_left_mono) simp_all
  also have "\<dots> < 1 / 10000"
    using d by simp
  finally show ?thesis .
qed

subsection \<open>The iteration below the root\<close>

lemma irr_tail_step:
  assumes r: "0 < 1 + r" "r \<le> 10"
    and IH: "\<And>rate. L * (1 + r) \<le> 1 + rate \<Longrightarrow> rate \<le> r \<Longrightarrow> - 0.99 \<le> rate \<Longrightarrow>
               \<bar>irrLoop (singlePayoff r) k rate - r\<bar> < 1 / 10000"
    and L': "0 < L'"
    and h: "\<And>u. L' \<le> u \<Longrightarrow> u \<le> 1 \<Longrightarrow> L \<le> u * (6 - u ^ 5) / 5"
    and pre: "L' * (1 + r) \<le> 1 + rate" "rate \<le> r" "- 0.99 \<le> rate"
  shows "\<bar>irrLoop (singlePayoff r) (Suc k) rate - r\<bar> < 1 / 10000"
proof -
  define R where "R = 1 + r"
  define u where "u = (1 + rate) / R"
  have R: "0 < R" "R \<le> 11" using r by (simp_all add: R_def)
  have y: "1 + rate = u * R" using R by (simp add: u_def)
  have rate: "rate = u * R - 1" using y by simp
  have rr: "r = R - 1" by (simp add: R_def)
  have uL: "L' \<le> u"
    using pre(1) R(1) by (simp add: u_def R_def pos_le_divide_eq)
  have u1: "u \<le> 1"
    using pre(2) R(1) by (simp add: u_def R_def)
  have u0: "0 < u" using L' uL by simp
  have ypos: "0 < 1 + rate" using u0 R(1) by (simp add: y)
  define u' where "u' = u * (6 - u ^ 5) / 5"
  have u': "L \<le> u'" "u' \<le> 1" "u \<le> u'"
    using h [OF uL u1] newton_map_le_one [of u] newton_map_ge [of u] u0 u1
    by (simp_all add: u'_def)
  have npv: "- 100 + 100 * (1 + r) ^ 5 / (1 + rate) ^ 5 = 100 * (1 / u ^ 5 - 1)"
    and dnpv: "- (500 * (1 + r) ^ 5 / (1 + rate) ^ 6) = - (500 / (u ^ 6 * R))"
    unfolding y R_def [symmetric] by (rule npv_ratio [OF u0 R(1)])+
  have step: "rate - 100 * (1 / u ^ 5 - 1) / (- (500 / (u ^ 6 * R))) = u' * R - 1"
    using newton_ratio [OF u0 R(1)]
    unfolding npv_ratio [OF u0 R(1)] u'_def rate [symmetric] .
  have guard: "\<not> \<bar>- (500 / (u ^ 6 * R))\<bar> < 0.0001"
  proof -
    define d where "d = 500 / (u ^ 6 * R)"
    have "u ^ 6 \<le> 1" using u0 u1 by (simp add: power_le_one)
    then have le: "u ^ 6 * R \<le> 1 * 11"
      using R by (intro mult_mono) simp_all
    have pos: "0 < u ^ 6 * R" using u0 R(1) by simp
    have "500 / 11 \<le> d"
      unfolding d_def using le pos by (intro divide_left_mono) simp_all
    then have "\<not> \<bar>- d\<bar> < 0.0001" by simp
    then show ?thesis unfolding d_def .
  qed
  show ?thesis
  proof (cases "\<bar>100 * (1 / u ^ 5 - 1)\<bar> < 0.0001")
    case True
    have "irrLoop (singlePayoff r) (Suc k) rate = rate"
      unfolding irrLoop_singlePayoff_Suc [OF ypos] npv
      by (simp only: True if_True)
    moreover have "\<bar>u * R - R\<bar> < 1 / 10000"
      by (rule close_of_npv [OF u0 R True])
    ultimately show ?thesis by (simp add: rate rr)
  next
    case False
    have lo: "\<not> u' * R - 1 < - 0.99"
    proof -
      have "u * R \<le> u' * R" using u'(3) R(1) by simp
      then show ?thesis using pre(3) rate by simp
    qed
    have hi: "u' * R - 1 \<le> r"
    proof -
      have "u' * R \<le> 1 * R" using u'(2) R(1) by (intro mult_right_mono) simp_all
      then show ?thesis by (simp add: rr)
    qed
    then have hi': "\<not> u' * R - 1 > 10" using r(2) by simp
    have "irrLoop (singlePayoff r) (Suc k) rate = irrLoop (singlePayoff r) k (u' * R - 1)"
      unfolding irrLoop_singlePayoff_Suc [OF ypos] npv dnpv
      by (simp only: False guard lo hi' step if_False Let_def)
    moreover have "\<bar>irrLoop (singlePayoff r) k (u' * R - 1) - r\<bar> < 1 / 10000"
    proof (rule IH)
      show "L * (1 + r) \<le> 1 + (u' * R - 1)"
        using u'(1) R(1) by (simp add: R_def [symmetric])
      show "u' * R - 1 \<le> r" by (rule hi)
      show "- 0.99 \<le> u' * R - 1" using lo by simp
    qed
    ultimately show ?thesis by simp
  qed
qed

subsection \<open>Convergence within the iterations left\<close>

lemma convergesFrom_step:
  assumes "0 < 1 + r" "r \<le> 10" "convergesFrom r k L" "0 < L'"
    and "\<And>u. L' \<le> u \<Longrightarrow> u \<le> 1 \<Longrightarrow> L \<le> u * (6 - u ^ 5) / 5"
  shows "convergesFrom r (Suc k) L'"
  unfolding convergesFrom_def
proof (intro allI impI, elim conjE)
  fix rate
  assume pre: "L' * (1 + r) \<le> 1 + rate" "rate \<le> r" "- 0.99 \<le> rate"
  show "\<bar>irrLoop (singlePayoff r) (Suc k) rate - r\<bar> < 1 / 10000"
  proof (rule irr_tail_step [OF assms(1,2) _ assms(4) assms(5) pre])
    fix rate'
    assume "L * (1 + r) \<le> 1 + rate'" "rate' \<le> r" "- 0.99 \<le> rate'"
    with assms(3) show "\<bar>irrLoop (singlePayoff r) k rate' - r\<bar> < 1 / 10000"
      unfolding convergesFrom_def by blast
  qed
qed

lemma convergesFrom_0:
  assumes "0 < 1 + r" "r \<le> 10"
  shows "convergesFrom r 0 (1 - 9 / 1000000)"
  unfolding convergesFrom_def
proof (intro allI impI, elim conjE)
  fix rate
  assume pre: "(1 - 9 / 1000000) * (1 + r) \<le> 1 + rate" "rate \<le> r" "- 0.99 \<le> rate"
  have "r - rate \<le> 9 / 1000000 * (1 + r)"
    using pre(1) by (simp add: algebra_simps)
  also have "\<dots> \<le> 9 / 1000000 * 11"
    using assms(2) by simp
  finally have "r - rate < 1 / 10000" by simp
  with pre(2) show "\<bar>irrLoop (singlePayoff r) 0 rate - r\<bar> < 1 / 10000"
    by simp
qed

lemma convergesFrom_quadratic:
  assumes "0 < 1 + r" "r \<le> 10" "convergesFrom r k (1 - e)" "0 \<le> e'" "e' < 1" "3 * e'\<^sup>2 \<le> e"
  shows "convergesFrom r (Suc k) (1 - e')"
proof (rule convergesFrom_step [OF assms(1,2,3)])
  show "0 < 1 - e'" using assms(5) by simp
next
  fix u :: real
  assume u: "1 - e' \<le> u" "u \<le> 1"
  then have u0: "0 \<le> u" using assms(5) by simp
  have "(1 - u)\<^sup>2 \<le> e'\<^sup>2"
    using u by (intro power_mono) simp_all
  then have "3 * (1 - u)\<^sup>2 \<le> e"
    using assms(6) by simp
  with newton_map_quadratic [OF u0 u(2)] show "1 - e \<le> u * (6 - u ^ 5) / 5"
    by simp
qed

lemma convergesFrom_linear:
  assumes "0 < 1 + r" "r \<le> 10" "convergesFrom r k L" "0 < L" "L \<le> 4 / 5"
  shows "convergesFrom r (Suc k) (8 / 9 * L)"
proof (rule convergesFrom_step [OF assms(1,2,3)])
  show "0 < 8 / 9 * L" using assms(4) by simp
next
  fix u :: real
  assume u: "8 / 9 * L \<le> u" "u \<le> 1"
  then have u0: "0 \<le> u" using assms(4) by simp
  show "L \<le> u * (6 - u ^ 5) / 5"
  proof (cases "u \<le> 4 / 5")
    case True
    have "L \<le> 9 / 8 * u" using u(1) by simp
    then show ?thesis
      by (rule order_trans) (rule newton_map_linear [OF u0 True])
  next
    case False
    then have "L \<le> u" using assms(5) by simp
    then show ?thesis
      by (rule order_trans) (rule newton_map_ge [OF u0 u(2)])
  qed
qed

lemma convergesFrom_more_iterations:
  assumes "0 < 1 + r" "r \<le> 10" "convergesFrom r k L" "0 < L"
  shows "convergesFrom r (k + n) L"
proof (induction n)
  case 0
  show ?case using assms(3) by simp
next
  case (Suc n)
  have "convergesFrom r (Suc (k + n)) L"
  proof (rule convergesFrom_step [OF assms(1,2) Suc assms(4)])
    fix u :: real
    assume u: "L \<le> u" "u \<le> 1"
    then have "0 \<le> u" using assms(4) by simp
    from u(1) show "L \<le> u * (6 - u ^ 5) / 5"
      by (rule order_trans) (rule newton_map_ge [OF \<open>0 \<le> u\<close> u(2)])
  qed
  then show ?case by simp
qed

lemma convergesFrom_weaken:
  assumes "0 < 1 + r" "convergesFrom r k L" "L \<le> L'"
  shows "convergesFrom r k L'"
  unfolding convergesFrom_def
proof (intro allI impI, elim conjE)
  fix rate
  assume pre: "L' * (1 + r) \<le> 1 + rate" "rate \<le> r" "- 0.99 \<le> rate"
  have "L * (1 + r) \<le> L' * (1 + r)"
    using assms(1,3) by (intro mult_right_mono) simp_all
  with pre assms(2) show "\<bar>irrLoop (singlePayoff r) k rate - r\<bar> < 1 / 10000"
    unfolding convergesFrom_def by (meson order_trans)
qed

lemma convergesFrom_linear_phase:
  assumes "0 < 1 + r" "r \<le> 10"
  shows "convergesFrom r (5 + j) ((8 / 9) ^ j * (77 / 100))"
proof (induction j)
  case 0
  have c0: "convergesFrom r 0 (1 - 9 / 1000000)"
    by (rule convergesFrom_0 [OF assms])
  have c1: "convergesFrom r (Suc 0) (1 - 17 / 10000)"
    by (rule convergesFrom_quadratic [OF assms c0]) (simp_all add: power2_eq_square)
  have c2: "convergesFrom r (Suc (Suc 0)) (1 - 2 / 100)"
    by (rule convergesFrom_quadratic [OF assms c1]) (simp_all add: power2_eq_square)
  have c3: "convergesFrom r (Suc (Suc (Suc 0))) (1 - 8 / 100)"
    by (rule convergesFrom_quadratic [OF assms c2]) (simp_all add: power2_eq_square)
  have c4: "convergesFrom r (Suc (Suc (Suc (Suc 0)))) (1 - 16 / 100)"
    by (rule convergesFrom_quadratic [OF assms c3]) (simp_all add: power2_eq_square)
  have c5: "convergesFrom r (Suc (Suc (Suc (Suc (Suc 0))))) (1 - 23 / 100)"
    by (rule convergesFrom_quadratic [OF assms c4]) (simp_all add: power2_eq_square)
  then show ?case by (simp add: eval_nat_numeral)
next
  case (Suc j)
  have pos: "0 < (8 / 9 :: real) ^ j * (77 / 100)" by simp
  have "(8 / 9 :: real) ^ j \<le> 1" by (simp add: power_le_one)
  then have le: "(8 / 9 :: real) ^ j * (77 / 100) \<le> 4 / 5" by simp
  from convergesFrom_linear [OF assms Suc pos le] show ?case
    by (simp add: mult.assoc)
qed

lemma convergesFrom_99:
  assumes "0 < 1 + r" "r \<le> 10"
  shows "convergesFrom r 99 (86 / 10000)"
proof -
  have "convergesFrom r (5 + 40) ((8 / 9) ^ 40 * (77 / 100))"
    by (rule convergesFrom_linear_phase [OF assms])
  moreover have "(8 / 9 :: real) ^ 40 * (77 / 100) \<le> 86 / 10000"
    by (simp add: power_divide)
  ultimately have c: "convergesFrom r 45 (86 / 10000)"
    using convergesFrom_weaken [OF assms(1)] by simp
  from convergesFrom_more_iterations [OF assms c, of 54] show ?thesis by simp
qed

lemma guard_implies_rate_above_clamp:
  fixes r :: real
  assumes "0 < 1 + r" "1 / 10000 \<le> 500 * (1 + r) ^ 5 / (1 + 0.15) ^ 6"
  shows "1 / 100 \<le> 1 + r"
proof (rule ccontr)
  assume "\<not> 1 / 100 \<le> 1 + r"
  then have "1 + r \<le> 1 / 100" by simp
  then have "(1 + r) ^ 5 \<le> (1 / 100) ^ 5"
    using assms(1) by (intro power_mono) simp_all
  then have "500 * (1 + r) ^ 5 / (1 + 0.15) ^ 6 \<le> 500 * (1 / 100) ^ 5 / (1 + 0.15) ^ 6"
    by (intro divide_right_mono mult_left_mono) simp_all
  also have "\<dots> < (1 / 10000 :: real)"
    by (simp add: power_divide)
  finally show False using assms(2) by simp
qed

section \<open>The claims\<close>



text \<open>
  Claim C1. The claim wants the terminal value discounted over \<open>n - 0.5\<close> periods
  when the mid-year convention is on. The yearly periods are as claimed (see
  \<open>discountPeriod\<close>, which \<open>discountProjection\<close> uses), but \<open>tvDiscountPeriod\<close> is
  \<open>n\<close> in both branches. Evaluated on the specification's scenario, where the
  convention is on and \<open>n = 5\<close>: the present value of the terminal value is the
  terminal value divided by \<open>(1 + wacc)\<close> to the power 5, and that differs from the
  quotient by the power 4.5.
\<close>

theorem terminal_value_discounted_over_whole_years:
  "modelUseMidYear specScenario \<and>
   pvOfTerminalValue (valuationOf specScenario) =
     ValuationOutput.terminalValue (valuationOf specScenario)
       / Math_pow (1 + modelWacc specScenario) 5 \<and>
   pvOfTerminalValue (valuationOf specScenario) \<noteq>
     ValuationOutput.terminalValue (valuationOf specScenario)
       / Math_pow (1 + modelWacc specScenario) (5 - 0.5)"
proof -
  let ?m = specScenario
  let ?ps = "calculateProjections ?m"
  let ?v = "fst (calculateValuation ?m ?ps)"
  have ne: "?ps \<noteq> []" by (rule calculateProjections_nonempty)
  have tv: "ValuationOutput.terminalValue ?v = 3950001"
    by (simp add: cv_terminalValue [OF ne] cv_terminalValueGordon [OF ne] specScenario_last_ufcf
          specScenario_wacc specScenario_growth)
  have pv: "pvOfTerminalValue ?v = ValuationOutput.terminalValue ?v / Math_pow (1 + modelWacc ?m) 5"
    by (simp add: cv_pvOfTerminalValue [OF ne] cv_terminalValue [OF ne]
          calculateProjections_length)
  have "(1 + 1 / 10 :: real) powr (5 - 0.5) < (1 + 1 / 10) powr 5"
    by (rule powr_less_mono) simp_all
  then have "Math_pow (1 + modelWacc ?m) (5 - 0.5) < Math_pow (1 + modelWacc ?m) 5"
    by (simp only: Math_pow_def specScenario_wacc)
  then have "Math_pow (1 + modelWacc ?m) 5 \<noteq> Math_pow (1 + modelWacc ?m) (5 - 0.5)"
    by simp
  moreover have "0 < Math_pow (1 + modelWacc ?m) 5" "0 < Math_pow (1 + modelWacc ?m) (5 - 0.5)"
    by (simp_all add: Math_pow_pos modelWacc_base)
  ultimately have "(3950001::real) / Math_pow (1 + modelWacc ?m) 5
      \<noteq> 3950001 / Math_pow (1 + modelWacc ?m) (5 - 0.5)"
    by (simp add: field_simps)
  with pv tv show ?thesis
    by (simp add: valuationOf_def specScenario_midYear)
qed

text \<open>
  Claim C4. The claim wants \<open>impliedMultiple = 0\<close> when the EBITDA of the last
  projected year is 0. The source replaces a zero EBITDA by 1 (\<open>ebitda || 1\<close>) before
  it tests the divisor, so the test never fires. Evaluated on a company whose costs
  use up the whole revenue: the EBITDA of the last year is 0, and the implied multiple
  is the enterprise value itself, which is negative here, not 0.
\<close>

theorem implied_multiple_at_zero_ebitda:
  "YearProjection.ebitda (last (calculateProjections zeroEbitdaModel)) = 0 \<and>
   impliedMultiple (valuationOf zeroEbitdaModel) =
     ValuationOutput.enterpriseValue (valuationOf zeroEbitdaModel) \<and>
   impliedMultiple (valuationOf zeroEbitdaModel) < 0"
proof -
  let ?m = zeroEbitdaModel
  let ?ps = "calculateProjections ?m"
  let ?v = "fst (calculateValuation ?m ?ps)"
  have ne: "?ps \<noteq> []" by (rule calculateProjections_nonempty)
  have base: "0 < 1 + modelWacc ?m" by (rule modelWacc_base)
  have im: "impliedMultiple ?v = ValuationOutput.enterpriseValue ?v"
    using cv_impliedMultiple [OF ne, of ?m] by (simp add: zeroEbitda_last orElse_def)
  have "sumPvFcf ?v \<le> 0"
    using discountLoop_snd_le [OF base zeroEbitda_neg, of "modelUseMidYear ?m" 0 0]
    by (simp add: cv_sumPvFcf [OF ne])
  moreover have "terminalValueGordon ?v < 0"
    by (simp add: cv_terminalValueGordon [OF ne] zeroEbitda_last zeroEbitda_consts)
  then have "pvOfTerminalValue ?v < 0"
    using Math_pow_pos [OF base, of "real (length ?ps)"]
    by (simp add: cv_pvOfTerminalValue [OF ne] divide_neg_pos)
  ultimately have "ValuationOutput.enterpriseValue ?v < 0"
    by (simp add: cv_enterpriseValue [OF ne])
  with im show ?thesis
    by (simp add: valuationOf_def zeroEbitda_last)
qed

text \<open>
  Claim C7. The claim wants the projection array unchanged by \<open>calculateValuation\<close>.
  The \<open>forEach\<close> writes \<open>discountFactor\<close>, \<open>fcf\<close> and \<open>pvOfFcf\<close> into every
  element. On the specification's scenario the array after the call differs from the
  array before it.
\<close>

theorem valuation_changes_projections:
  "projectionsAfterValuation specScenario \<noteq> calculateProjections specScenario"
proof
  let ?ps = "calculateProjections specScenario"
  assume eq: "projectionsAfterValuation specScenario = ?ps"
  have l: "0 < length ?ps" by (simp add: calculateProjections_length)
  have "discountFactor (projectionsAfterValuation specScenario ! 0) =
      1 / Math_pow (1 + modelWacc specScenario) (discountPeriod (modelUseMidYear specScenario) 0)"
    using discountLoop_nth [OF l, of "modelWacc specScenario" "modelUseMidYear specScenario" 0 0]
    by (simp add: projectionsAfterValuation_def cv_projections
          discountProjection_eq [OF modelWacc_base])
  moreover have "0 < 1 / Math_pow (1 + modelWacc specScenario)
      (discountPeriod (modelUseMidYear specScenario) 0)"
    by (simp add: Math_pow_pos modelWacc_base)
  ultimately show False
    using eq specScenario_discountFactor0 by simp
qed

text \<open>
  Claim C7, amended. \<open>calculateValuation\<close> keeps the number and the order of the
  projections and writes exactly three fields of each: \<open>discountFactor\<close> becomes
  \<open>1 / (1 + wacc)\<close> to the power of the year's discount period, \<open>fcf\<close> becomes the
  year's \<open>ufcf\<close>, and \<open>pvOfFcf\<close> their product; every other field of every element
  is as before the call.
\<close>

theorem valuation_writes_three_fields:
  assumes "i < length projections"
  shows "length (snd (calculateValuation model projections)) = length projections \<and>
     snd (calculateValuation model projections) ! i =
       (projections ! i)
         \<lparr> discountFactor :=
             1 / Math_pow (1 + modelWacc model) (discountPeriod (modelUseMidYear model) i),
           YearProjection.fcf := ufcf (projections ! i),
           YearProjection.pvOfFcf :=
             ufcf (projections ! i)
               * (1 / Math_pow (1 + modelWacc model)
                        (discountPeriod (modelUseMidYear model) i)) \<rparr>"
  using discountLoop_nth [OF assms, of "modelWacc model" "modelUseMidYear model" 0 0]
  by (simp add: cv_projections discountLoop_length discountProjection_eq [OF modelWacc_base])

theorem valuation_writes_three_fields_witness:
  "(0::nat) < length (calculateProjections specScenario) \<and>
   length (projectionsAfterValuation specScenario) = 5 \<and>
   YearProjection.revenue (projectionsAfterValuation specScenario ! 0) = 1000000 \<and>
   YearProjection.fcf (projectionsAfterValuation specScenario ! 0) = 41336 \<and>
   discountFactor (projectionsAfterValuation specScenario ! 0) = 1 / Math_pow (11 / 10) (1 / 2)"
proof -
  have l: "0 < length (calculateProjections specScenario)"
    by (simp add: calculateProjections_length)
  have r: "YearProjection.revenue (calculateProjections specScenario ! 0) = 1000000"
    "ufcf (calculateProjections specScenario ! 0) = 41336"
    by code_simp+
  show ?thesis
    using valuation_writes_three_fields [OF l, of specScenario] l r
    by (simp add: projectionsAfterValuation_def calculateProjections_length specScenario_wacc
          specScenario_midYear discountPeriod_def)
qed






text \<open>
  Claim C6. In every year of the LBO debt schedule the cash sweep is at most the
  senior balance at the beginning of the year less the mandatory amortisation of the
  year (\<open>seniorAmort\<close>, the scheduled amount capped at the balance), and the ending
  senior balance is not negative; the floor at 0 never cuts, the ending balance is
  what is left after amortisation and sweep. This holds from any year and any
  balances on, so for the schedule of the LBO sheet and for the schedules of the exit
  sensitivity table, whose last senior balance is then not negative either when the
  senior debt at entry is not.
\<close>

theorem cash_sweep_never_overpays:
  assumes "d \<in> set (debtScheduleLoop lbo seniorDebt0 projections yr seniorBalance mezBalance)"
  shows "cashSweep d \<le> beginSenior d - seniorAmort d \<and> 0 \<le> endSenior d \<and>
     endSenior d = beginSenior d - seniorAmort d - cashSweep d \<and>
     (0 \<le> seniorBalance \<longrightarrow>
        0 \<le> snd (scenarioLoop lbo seniorDebt0 projections yr seniorBalance mezBalance fcfs))"
proof -
  from debtScheduleLoop_members [OF assms] obtain yr' proj bal mez
    where "d = debtScheduleYear lbo seniorDebt0 yr' proj bal mez"
    by blast
  from debtScheduleYear_sweep(2,3,4) [OF this] show ?thesis
    by (simp add: scenarioLoop_debtSchedule debtScheduleLoop_endSenior_nonneg
          del: last.simps)
qed

theorem cash_sweep_never_overpays_witness:
  "debtSchedule defaultLbo (calculateProjections specScenario) ! 1
     \<in> set (debtScheduleLoop defaultLbo 1200000 (calculateProjections specScenario) 0
              1200000 240000) \<and>
   (0::real) \<le> 1200000 \<and>
   beginSenior (debtSchedule defaultLbo (calculateProjections specScenario) ! 1) = 1128000 \<and>
   seniorAmort (debtSchedule defaultLbo (calculateProjections specScenario) ! 1) = 72000 \<and>
   cashSweep (debtSchedule defaultLbo (calculateProjections specScenario) ! 1) = 33465 / 2 \<and>
   cashSweep (debtSchedule defaultLbo (calculateProjections specScenario) ! 1) \<le> 1128000 - 72000 \<and>
   0 \<le> endSenior (debtSchedule defaultLbo (calculateProjections specScenario) ! 1) \<and>
   0 \<le> snd (scenarioLoop defaultLbo 1200000 (calculateProjections specScenario) 0
              1200000 240000 [])"
proof -
  let ?ps = "calculateProjections specScenario"
  let ?d = "debtScheduleYear defaultLbo 1200000 1 (?ps ! 1) 1128000 240000"
  from specScenario_debtSchedule obtain d0 rest
    where ds: "debtSchedule defaultLbo ?ps = d0 # ?d # rest"
    by blast
  then have nth: "debtSchedule defaultLbo ?ps ! 1 = ?d" by simp
  have loop: "debtScheduleLoop defaultLbo 1200000 ?ps 0 1200000 240000 = d0 # ?d # rest"
    using ds by (simp add: debtSchedule_def specScenario_debt)
  then have mem: "?d \<in> set (debtScheduleLoop defaultLbo 1200000 ?ps 0 1200000 240000)"
    by simp
  have vals: "beginSenior ?d = 1128000" "seniorAmort ?d = 72000" "cashSweep ?d = 33465 / 2"
    by (rule specScenario_debt_year2)+
  show ?thesis
    using cash_sweep_never_overpays [OF mem, of "[]"] mem vals
    unfolding nth by simp
qed

text \<open>
  Claim C3. The claim wants the steps of each breakdown to chain to its final value,
  so that in the equity breakdown the enterprise value less the listed debt step is the
  reported equity value \<open>enterpriseValue - (debtBalance - cashBalance)\<close>. The step
  labelled ``Less: Net Debt'' carries \<open>debtBalance\<close> alone. Evaluated on the scenario
  with a debt of 500,000 and a cash balance of 200,000: the steps are the enterprise
  value, 500,000 and the equity value; the final value is the enterprise value less
  300,000, which the first step less the second is not.
\<close>

theorem equity_breakdown_lists_gross_debt:
  "map value (steps (ValuationBreakdown.equityValue (valuationBreakdown (breakdownsOf leveredModel)))) =
     [ValuationOutput.enterpriseValue (valuationOf leveredModel), 500000,
      ValuationOutput.equityValue (valuationOf leveredModel)] \<and>
   finalValue (ValuationBreakdown.equityValue (valuationBreakdown (breakdownsOf leveredModel))) =
     ValuationOutput.enterpriseValue (valuationOf leveredModel) - (500000 - 200000) \<and>
   ValuationOutput.enterpriseValue (valuationOf leveredModel) - 500000 \<noteq>
     finalValue (ValuationBreakdown.equityValue (valuationBreakdown (breakdownsOf leveredModel)))"
proof -
  have d: "safeNumber (debtBalance leveredModel) 0 = 500000"
    "safeNumber (cashBalance leveredModel) 0 = 200000"
    by (simp_all add: leveredModel_def safeNumber_def)
  have "ValuationOutput.equityValue (valuationOf leveredModel) =
      ValuationOutput.enterpriseValue (valuationOf leveredModel) - (500000 - 200000)"
    unfolding valuationOf_def
    by (simp add: cv_equityValue [OF calculateProjections_nonempty] d)
  then show ?thesis
    by (simp add: breakdownsOf_def equity_breakdown d)
qed

text \<open>
  Claim C2. The claim wants the axes of all three sensitivity grids centred on the
  model's current assumptions and every centre cell equal to the base-case result.
  The axes of the entry/exit grid and of the growth/margin grid are fixed lists, and
  the cells of the WACC/growth grid are rounded to integers. On the scenario with 5
  percent growth and full-year discounting the rows of the growth/margin grid are not
  centred on the growth rate 5 (their middle is 15), and the centre cell of the
  WACC/growth grid is not the enterprise value 36348157860 / 14641.
\<close>

theorem sensitivity_grids_not_centred:
  "\<not> centredOn (rowValues (revenueGrowthVsMargin (sensitivityOf slowGrowthModel)))
       (safeNumber (growthRate slowGrowthModel) 0) \<and>
   data (waccVsGrowth (sensitivityOf slowGrowthModel)) ! 2 ! 2 \<noteq>
     ValuationOutput.enterpriseValue (valuationOf slowGrowthModel)"
proof -
  have g: "safeNumber (growthRate slowGrowthModel) 0 = 5"
    by (simp add: slowGrowthModel_def safeNumber_def)
  have "data (waccVsGrowth (sensitivityOf slowGrowthModel)) ! 2 ! 2 =
      Math_round (36348157860 / 14641)"
    by (simp only: sensitivityOf_def waccVsGrowth_grid waccVsGrowthCell_base slowGrowth_ev)
  also have "\<dots> = 2482628"
    by (simp add: Math_round_def)
  finally have "data (waccVsGrowth (sensitivityOf slowGrowthModel)) ! 2 ! 2 = 2482628" .
  then show ?thesis
    by (simp add: sensitivityOf_def fixed_grids centredOn_def g slowGrowth_ev)
qed

text \<open>
  Claim C2, amended. In the WACC/growth grid that \<open>calculateSensitivity\<close> returns,
  the five row values are centred on the model's WACC (10 when absent), the five column
  values on its terminal growth rate (2 when absent), and the centre cell
  \<open>[2][2]\<close> is the enterprise value of the unperturbed model, computed from freshly
  built projections and rounded to the nearest integer.
\<close>

theorem wacc_growth_grid_centred:
  "centredOn (rowValues (waccVsGrowth (calculateSensitivity model projections)))
     (safeNumber (wacc model) 10) \<and>
   centredOn (colValues (waccVsGrowth (calculateSensitivity model projections)))
     (safeNumber (terminalGrowthRate model) 2) \<and>
   data (waccVsGrowth (calculateSensitivity model projections)) ! 2 ! 2 =
     Math_round (ValuationOutput.enterpriseValue (valuationOf model))"
  unfolding waccVsGrowth_grid waccVsGrowthCell_base centredOn_def
  by (simp add: eval_nat_numeral)

text \<open>
  Claim C5. The claim wants the solver within 0.01 percent of \<open>r\<close> for every
  \<open>r\<close> in the clamp range. The loop also stops when the derivative is smaller than
  \<open>1e-4\<close> in magnitude; for a small payoff that happens at the initial guess. For
  \<open>r = -95\<close> percent (the flows \<open>-100, 0, 0, 0, 0, 100 * 0.05^5\<close>) the solver
  returns the initial guess, 15 percent.
\<close>

theorem irr_stops_at_initial_guess:
  "- 0.99 \<le> (- 0.95 :: real) \<and> (- 0.95 :: real) \<le> 10 \<and>
   calculateIRR (singlePayoff (- 0.95)) = 15 \<and>
   \<not> \<bar>calculateIRR (singlePayoff (- 0.95)) - 100 * (- 0.95)\<bar> < 0.01"
proof -
  have "irrLoop (singlePayoff (- 0.95)) (Suc 99) 0.15 = 0.15"
    by (subst irrLoop_singlePayoff_Suc) (simp_all add: power_divide)
  then have "calculateIRR (singlePayoff (- 0.95)) = 15"
    by (simp add: calculateIRR_def)
  then show ?thesis by simp
qed

text \<open>
  Claim C5, amended. For the cash flows \<open>-100, 0, 0, 0, 0, 100 * (1 + r)^5\<close> with
  \<open>r\<close> at most 1000 percent and the payoff large enough that the derivative guard
  does not stop the loop at the initial guess
  (\<open>500 * (1 + r)^5 / 1.15^6 \<ge> 1e-4\<close>, which holds from about \<open>r = -94.5\<close> percent
  on), the solver (initial guess 15 percent, at most 100 iterations, the two
  \<open>1e-4\<close> guards, the clamp to \<open>[-99%, 1000%]\<close>) returns a percentage within
  0.01 of \<open>100 * r\<close>. The arithmetic is exact here; rounding of doubles is outside
  the model.
\<close>

theorem irr_recovers_single_payoff_rate:
  assumes "- 1 < r" and "r \<le> 10"
    and "1 / 10000 \<le> 500 * (1 + r) ^ 5 / (1 + 0.15) ^ 6"
  shows "\<bar>calculateIRR (singlePayoff r) - 100 * r\<bar> < 0.01"
proof -
  define R where "R = 1 + r"
  define u where "u = (1 + 0.15) / R"
  define u' where "u' = u * (6 - u ^ 5) / 5"
  have r0: "0 < 1 + r" using assms(1) by simp
  have R: "0 < R" "R \<le> 11" "1 / 100 \<le> R"
    using assms(1,2) guard_implies_rate_above_clamp [OF r0 assms(3)] by (simp_all add: R_def)
  have rr: "r = R - 1" by (simp add: R_def)
  have u0: "0 < u" using R(1) by (simp add: u_def)
  have y: "1 + 0.15 = u * R" using R(1) by (simp add: u_def)
  have ypos: "(0::real) < 1 + 0.15" by simp
  have npv: "- 100 + 100 * (1 + r) ^ 5 / (1 + 0.15) ^ 5 = 100 * (1 / u ^ 5 - 1)"
    unfolding y R_def [symmetric] by (rule npv_ratio(1) [OF u0 R(1)])
  have guard: "\<not> \<bar>- (500 * (1 + r) ^ 5 / (1 + 0.15) ^ 6)\<bar> < 0.0001"
  proof -
    define d where "d = 500 * (1 + r) ^ 5 / (1 + 0.15) ^ 6"
    have "1 / 10000 \<le> d" unfolding d_def by (rule assms(3))
    then have "\<not> \<bar>- d\<bar> < 0.0001" by simp
    then show ?thesis unfolding d_def .
  qed
  have step: "0.15 - (- 100 + 100 * (1 + r) ^ 5 / (1 + 0.15) ^ 5)
                        / (- (500 * (1 + r) ^ 5 / (1 + 0.15) ^ 6)) = u' * R - 1"
  proof -
    have "(0.15 :: real) = u * R - 1" using y by simp
    then have "0.15 - (- 100 + 100 * R ^ 5 / (u * R) ^ 5) / (- (500 * R ^ 5 / (u * R) ^ 6)) =
        u * R - 1 - (- 100 + 100 * R ^ 5 / (u * R) ^ 5) / (- (500 * R ^ 5 / (u * R) ^ 6))"
      by simp
    also have "\<dots> = u' * R - 1"
      unfolding u'_def by (rule newton_ratio [OF u0 R(1)])
    finally show ?thesis unfolding y R_def [symmetric] .
  qed
  have close: "\<bar>irrLoop (singlePayoff r) (Suc 99) 0.15 - r\<bar> < 1 / 10000"
  proof (cases "\<bar>100 * (1 / u ^ 5 - 1)\<bar> < 0.0001")
    case True
    have e: "irrLoop (singlePayoff r) (Suc 99) 0.15 = 0.15"
      unfolding irrLoop_singlePayoff_Suc [OF ypos] npv
      by (simp only: True if_True)
    have d: "0.15 - r = u * R - R"
      using y by (simp add: rr)
    have "\<bar>u * R - R\<bar> < 1 / 10000"
      by (rule close_of_npv [OF u0 R(1,2) True])
    then show ?thesis
      unfolding e d .
  next
    case False
    define rate2 where "rate2 = (if u' * R - 1 < - 0.99 then - 0.99 else u' * R - 1)"
    have u'1: "u' \<le> 1"
      unfolding u'_def using u0 by (intro newton_map_le_one) simp
    then have "u' * R \<le> 1 * R" using R(1) by (intro mult_right_mono) simp_all
    then have hi1: "u' * R - 1 \<le> r" by (simp add: rr)
    have hi2: "rate2 \<le> r"
      using hi1 R(3) by (simp add: rate2_def rr)
    then have hi3: "\<not> rate2 > 10" using assms(2) by simp
    have lo2: "- 0.99 \<le> rate2" by (simp add: rate2_def)
    have far: "86 / 10000 * (1 + r) \<le> 1 + rate2"
    proof (cases "R \<le> 1 + 0.15")
      case True
      then have "86 / 10000 * R \<le> 1 / 100" by simp
      also have "\<dots> \<le> 1 + rate2" using lo2 by simp
      finally show ?thesis by (simp add: R_def)
    next
      case False
      then have "u \<le> 1" using R(1) by (simp add: u_def)
      then have "u \<le> u'"
        unfolding u'_def using u0 by (intro newton_map_ge) simp_all
      then have "u * R \<le> u' * R" using R(1) by simp
      then have "1 + 0.15 \<le> u' * R" by (simp only: y)
      then have "1 + 0.15 \<le> 1 + rate2" by (simp add: rate2_def)
      moreover have "86 / 10000 * R \<le> 1 + 0.15" using R(2) by simp
      ultimately show ?thesis by (simp add: R_def)
    qed
    have "irrLoop (singlePayoff r) (Suc 99) 0.15 = irrLoop (singlePayoff r) 99 rate2"
      unfolding irrLoop_singlePayoff_Suc [OF ypos] step
      unfolding npv
      by (simp only: False guard hi3 if_False Let_def rate2_def [symmetric])
    moreover have "\<bar>irrLoop (singlePayoff r) 99 rate2 - r\<bar> < 1 / 10000"
      using convergesFrom_99 [OF r0 assms(2)] far hi2 lo2
      unfolding convergesFrom_def by blast
    ultimately show ?thesis by simp
  qed
  define t where "t = irrLoop (singlePayoff r) (Suc 99) 0.15 - r"
  have "(100 :: nat) = Suc 99" by simp
  then have "calculateIRR (singlePayoff r) - 100 * r = 100 * t"
    unfolding calculateIRR_def t_def by (simp only: algebra_simps)
  moreover have "\<bar>t\<bar> < 1 / 10000" using close by (simp only: t_def)
  then have "\<bar>100 * t\<bar> < 0.01" by simp
  ultimately show ?thesis by (simp only:)
qed

theorem irr_recovers_single_payoff_rate_witness:
  "(- 1 :: real) < 1 / 5 \<and> (1 / 5 :: real) \<le> 10 \<and>
   (1 / 10000 :: real) \<le> 500 * (1 + 1 / 5) ^ 5 / (1 + 0.15) ^ 6 \<and>
   \<bar>calculateIRR (singlePayoff (1 / 5)) - 100 * (1 / 5)\<bar> < 0.01"
proof -
  have g: "(1 / 10000 :: real) \<le> 500 * (1 + 1 / 5) ^ 5 / (1 + 0.15) ^ 6"
    by (simp add: power_divide)
  have "\<bar>calculateIRR (singlePayoff (1 / 5)) - 100 * (1 / 5)\<bar> < 0.01"
    by (rule irr_recovers_single_payoff_rate [OF _ _ g]) simp_all
  with g show ?thesis by simp
qed

end
